theory Spec2Isabelle
  imports Complex_Main "HOL-Library.Product_Lexorder"
begin

section \<open>Python values, errors and floating-point numbers\<close>

text \<open>
  The exceptions the modelled code can raise. A function that can raise returns
  \<open>py_error + 'a\<close>, with \<open>Inl\<close> for the exception.
\<close>

datatype py_error = ValueError | TypeError | AttributeError

text \<open>
  A \<open>datetime\<close> is used by the code only through its \<open>year\<close> and \<open>month\<close>
  (every \<open>datetime\<close> the code builds has day 1), so it is the pair (year, month).
  A period argument is a Python value: a string, a \<open>datetime\<close>, or something else
  (an integer stands for the values that are neither).
\<close>

type_synonym datetime = "int \<times> int"

datatype pyval = PStr string | PDate int int | PInt int

text \<open>
  Floating-point numbers: a finite value, the two infinities, or NaN. Arithmetic on
  finite values is exact (no rounding, no overflow, one zero); the special values
  follow IEEE 754 as numpy applies it (division by zero gives an infinity or NaN and
  never raises; every comparison with NaN is false, \<open>!=\<close> is true).
\<close>

datatype fl = Fin real | PInf | NInf | NaN

fun is_nan :: "fl \<Rightarrow> bool" where
  "is_nan NaN = True"
| "is_nan _ = False"

fun is_finite :: "fl \<Rightarrow> bool" where
  "is_finite (Fin _) = True"
| "is_finite _ = False"

fun fl_neg :: "fl \<Rightarrow> fl" where
  "fl_neg (Fin a) = Fin (- a)"
| "fl_neg PInf = NInf"
| "fl_neg NInf = PInf"
| "fl_neg NaN = NaN"

fun fl_add :: "fl \<Rightarrow> fl \<Rightarrow> fl" where
  "fl_add (Fin a) (Fin b) = Fin (a + b)"
| "fl_add NaN _ = NaN"
| "fl_add _ NaN = NaN"
| "fl_add PInf NInf = NaN"
| "fl_add NInf PInf = NaN"
| "fl_add PInf _ = PInf"
| "fl_add _ PInf = PInf"
| "fl_add NInf _ = NInf"
| "fl_add _ NInf = NInf"

definition fl_sub :: "fl \<Rightarrow> fl \<Rightarrow> fl" where
  "fl_sub x y = fl_add x (fl_neg y)"

fun fl_mul :: "fl \<Rightarrow> fl \<Rightarrow> fl" where
  "fl_mul (Fin a) (Fin b) = Fin (a * b)"
| "fl_mul NaN _ = NaN"
| "fl_mul _ NaN = NaN"
| "fl_mul (Fin a) PInf = (if a = 0 then NaN else if 0 < a then PInf else NInf)"
| "fl_mul (Fin a) NInf = (if a = 0 then NaN else if 0 < a then NInf else PInf)"
| "fl_mul PInf (Fin b) = (if b = 0 then NaN else if 0 < b then PInf else NInf)"
| "fl_mul NInf (Fin b) = (if b = 0 then NaN else if 0 < b then NInf else PInf)"
| "fl_mul PInf PInf = PInf"
| "fl_mul NInf NInf = PInf"
| "fl_mul PInf NInf = NInf"
| "fl_mul NInf PInf = NInf"

fun fl_div :: "fl \<Rightarrow> fl \<Rightarrow> fl" where
  "fl_div (Fin a) (Fin b) =
     (if b = 0 then (if a = 0 then NaN else if 0 < a then PInf else NInf)
      else Fin (a / b))"
| "fl_div NaN _ = NaN"
| "fl_div _ NaN = NaN"
| "fl_div (Fin a) PInf = Fin 0"
| "fl_div (Fin a) NInf = Fin 0"
| "fl_div PInf (Fin b) = (if 0 \<le> b then PInf else NInf)"
| "fl_div NInf (Fin b) = (if 0 \<le> b then NInf else PInf)"
| "fl_div PInf PInf = NaN"
| "fl_div PInf NInf = NaN"
| "fl_div NInf PInf = NaN"
| "fl_div NInf NInf = NaN"

fun fl_sqrt :: "fl \<Rightarrow> fl" where
  "fl_sqrt (Fin a) = (if a < 0 then NaN else Fin (sqrt a))"
| "fl_sqrt PInf = PInf"
| "fl_sqrt NInf = NaN"
| "fl_sqrt NaN = NaN"

fun fl_abs :: "fl \<Rightarrow> fl" where
  "fl_abs (Fin a) = Fin \<bar>a\<bar>"
| "fl_abs PInf = PInf"
| "fl_abs NInf = PInf"
| "fl_abs NaN = NaN"

fun fl_lt :: "fl \<Rightarrow> fl \<Rightarrow> bool" where
  "fl_lt (Fin a) (Fin b) = (a < b)"
| "fl_lt NaN _ = False"
| "fl_lt _ NaN = False"
| "fl_lt _ NInf = False"
| "fl_lt PInf _ = False"
| "fl_lt NInf _ = True"
| "fl_lt _ PInf = True"

fun fl_eq :: "fl \<Rightarrow> fl \<Rightarrow> bool" where
  "fl_eq NaN _ = False"
| "fl_eq _ NaN = False"
| "fl_eq x y = (x = y)"

section \<open>Period parsing (\<open>_parse_period\<close> and the bare-year branch)\<close>

definition is_space :: "char \<Rightarrow> bool" where
  "is_space c =
     (c \<in> set [CHR 0x09, CHR 0x0A, CHR 0x0B, CHR 0x0C, CHR 0x0D, CHR 0x20, CHR 0x85, CHR 0xA0])"

definition is_digit :: "char \<Rightarrow> bool" where
  "is_digit c = (c \<in> set ''0123456789'')"

definition digit_val :: "char \<Rightarrow> int" where
  "digit_val c = int (of_char c) - 48"

text \<open>
  Python's \<open>int(s)\<close> on a string of the code points 0..255: surrounding whitespace
  is stripped (the ASCII whitespace, and the two Latin-1 spaces 0x85 and 0xA0, which
  \<open>int\<close> turns into blanks first), one sign is allowed, then decimal digits, where
  single underscores may stand between digits. \<open>None\<close> is the \<open>ValueError\<close>.
\<close>

fun digits_to_int :: "int \<Rightarrow> string \<Rightarrow> int option" where
  "digits_to_int acc [] = Some acc"
| "digits_to_int acc (c # cs) =
     (if is_digit c then digits_to_int (10 * acc + digit_val c) cs
      else if c = CHR ''_'' \<and> cs \<noteq> [] \<and> is_digit (hd cs) then digits_to_int acc cs
      else None)"

definition strip :: "string \<Rightarrow> string" where
  "strip s = rev (dropWhile is_space (rev (dropWhile is_space s)))"

definition py_int :: "string \<Rightarrow> int option" where
  "py_int s =
     (let t = strip s;
          neg = (t \<noteq> [] \<and> hd t = CHR ''-'');
          u = (if t \<noteq> [] \<and> (hd t = CHR ''-'' \<or> hd t = CHR ''+'') then tl t else t)
      in if u \<noteq> [] \<and> is_digit (hd u)
         then map_option (\<lambda>v. if neg then - v else v) (digits_to_int 0 u)
         else None)"

text \<open>\<open>s.split(sep)\<close> for a one-character separator.\<close>

fun split_on :: "char \<Rightarrow> string \<Rightarrow> string list" where
  "split_on sep [] = [[]]"
| "split_on sep (c # cs) =
     (if c = sep then [] # split_on sep cs
      else (case split_on sep cs of p # ps \<Rightarrow> (c # p) # ps | [] \<Rightarrow> [[c]]))"

text \<open>\<open>datetime(year, month, 1)\<close>: a \<open>ValueError\<close> outside years 1..9999, months 1..12.\<close>

definition mk_datetime :: "int \<Rightarrow> int \<Rightarrow> py_error + datetime" where
  "mk_datetime y m =
     (if 1 \<le> y \<and> y \<le> 9999 \<and> 1 \<le> m \<and> m \<le> 12 then Inr (y, m) else Inl ValueError)"

text \<open>
  \<open>year, month = period.split(sep); return datetime(int(year), int(month), 1)\<close>:
  the unpacking raises \<open>ValueError\<close> unless there are exactly two fields.
\<close>

definition parse_fields :: "char \<Rightarrow> string \<Rightarrow> py_error + datetime" where
  "parse_fields sep s =
     (case split_on sep s of
        [ys, ms] \<Rightarrow>
          (case py_int ys of
             None \<Rightarrow> Inl ValueError
           | Some y \<Rightarrow>
               (case py_int ms of
                  None \<Rightarrow> Inl ValueError
                | Some m \<Rightarrow> mk_datetime y m))
      | _ \<Rightarrow> Inl ValueError)"

definition parse_period :: "pyval \<Rightarrow> py_error + datetime" where
  "parse_period period =
     (case period of
        PDate y m \<Rightarrow> Inr (y, m)
      | PStr s \<Rightarrow>
          if CHR ''_'' \<in> set s then parse_fields CHR ''_'' s
          else if CHR ''-'' \<in> set s then parse_fields CHR ''-'' s
          else Inl ValueError
      | PInt i \<Rightarrow> Inl ValueError)"

text \<open>Decimal digits of a natural number, and zero padding to a width (\<open>:04d\<close>, \<open>:02d\<close>).\<close>

definition digit_char :: "nat \<Rightarrow> char" where
  "digit_char d = ''0123456789'' ! d"

fun dec :: "nat \<Rightarrow> string" where
  "dec n = (if n < 10 then [digit_char n] else dec (n div 10) @ [digit_char (n mod 10)])"

declare dec.simps [simp del]

definition zfill :: "nat \<Rightarrow> string \<Rightarrow> string" where
  "zfill w s = replicate (w - length s) CHR ''0'' @ s"

text \<open>\<open>str(v)\<close> and \<open>int(v)\<close> of a period value, as the baseline loop applies them.\<close>

definition py_str_len :: "pyval \<Rightarrow> nat" where
  "py_str_len v =
     (case v of
        PStr s \<Rightarrow> length s
      | PDate y m \<Rightarrow> 19
      | PInt i \<Rightarrow> (if i < 0 then 1 else 0) + length (dec (nat \<bar>i\<bar>)))"

definition py_int_of :: "pyval \<Rightarrow> py_error + int" where
  "py_int_of v =
     (case v of
        PStr s \<Rightarrow> (case py_int s of None \<Rightarrow> Inl ValueError | Some i \<Rightarrow> Inr i)
      | PInt i \<Rightarrow> Inr i
      | PDate y m \<Rightarrow> Inl TypeError)"

text \<open>
  The baseline loop of \<open>calculate_no2_significance\<close> resolves one baseline period:
  a value whose \<open>str\<close> has length 4 is taken as a bare year and combined with the
  target's month; anything else goes through \<open>_parse_period\<close>.
\<close>

definition baseline_dt :: "datetime \<Rightarrow> pyval \<Rightarrow> py_error + datetime" where
  "baseline_dt target_dt baseline_p =
     (if py_str_len baseline_p = 4
      then (case py_int_of baseline_p of
              Inl e \<Rightarrow> Inl e
            | Inr y \<Rightarrow> mk_datetime y (snd target_dt))
      else parse_period baseline_p)"

text \<open>
  The three textual formats of the specification: \<open>YYYY_MM\<close>, \<open>YYYY-MM\<close> and the
  bare year \<open>YYYY\<close>, written with zero padding; and what it means for a string to be
  of one of these forms.
\<close>

definition format_sep :: "char \<Rightarrow> int \<Rightarrow> int \<Rightarrow> string" where
  "format_sep sep y m = zfill 4 (dec (nat y)) @ sep # zfill 2 (dec (nat m))"

definition format_year :: "int \<Rightarrow> string" where
  "format_year y = zfill 4 (dec (nat y))"

definition is_YYYY_MM :: "char \<Rightarrow> string \<Rightarrow> bool" where
  "is_YYYY_MM sep s =
     (case s of
        [a, b, c, d, e, f, g] \<Rightarrow>
          is_digit a \<and> is_digit b \<and> is_digit c \<and> is_digit d \<and> e = sep \<and> is_digit f \<and> is_digit g
      | _ \<Rightarrow> False)"

definition is_YYYY :: "string \<Rightarrow> bool" where
  "is_YYYY s = (length s = 4 \<and> list_all is_digit s)"

section \<open>Rasters and the zonal mean\<close>

text \<open>
  A raster file as \<open>rasterio\<close> presents it: the first band, flattened row by row, and
  the file's nodata sentinel (\<open>src.nodata\<close>, which may be absent). A path either has
  no file, or a file that cannot be opened or read (the call raises), or a raster.
\<close>

record raster =
  data :: "fl list"
  nodata :: "fl option"

datatype raster_file = Missing | Unreadable | Raster raster

text \<open>
  A polygon enters the computation only through the cells of the grid it covers: it
  is the mask over the flattened grid. The result of \<open>zonal_stats\<close> is a list with
  one entry per feature, each a dictionary whose \<open>mean\<close> may be \<open>None\<close>; the code
  also guards against a result that is \<open>None\<close> and an entry that is \<open>None\<close>, so the
  type has both. The library call may raise.
\<close>

type_synonym polygon = "bool list"

datatype feature = NoFeature | Feature "fl option"

type_synonym zonal = "polygon \<Rightarrow> fl list \<Rightarrow> fl option \<Rightarrow> py_error + feature list option"

definition np_sum :: "fl list \<Rightarrow> fl" where
  "np_sum xs = foldl fl_add (Fin 0) xs"

definition np_mean :: "fl list \<Rightarrow> fl" where
  "np_mean xs = fl_div (np_sum xs) (Fin (real (length xs)))"

text \<open>
  \<open>rasterstats.zonal_stats(polygon, array, affine=..., stats=['mean'], nodata=...)\<close>,
  an external library, as it is documented and as the specification describes the
  primitive: the cells covered by the polygon that equal the nodata sentinel or are
  NaN are masked, the mean is taken over the remaining cells, and it is \<open>None\<close> when
  none remains. When the caller passes no \<open>nodata\<close> for an array, the library warns
  and uses -999 as the sentinel.
\<close>

definition zonal_stats :: zonal where
  "zonal_stats polygon arr nodata_arg =
     (let nd = (case nodata_arg of None \<Rightarrow> Fin (- 999) | Some v \<Rightarrow> v);
          vals = map fst (filter (\<lambda>(v, inside). inside \<and> \<not> fl_eq v nd \<and> \<not> is_nan v)
                                 (zip arr polygon))
      in Inr (Some [Feature (if vals = [] then None else Some (np_mean vals))]))"

section \<open>The monthly lookup (\<open>calculate_period_no2_coord_polygon\<close>)\<close>

text \<open>\<open>period.strftime('%Y_%m')\<close>; a value without \<open>strftime\<close> raises before the \<open>try\<close>.\<close>

definition period_str :: "pyval \<Rightarrow> py_error + string" where
  "period_str period =
     (case period of
        PStr s \<Rightarrow> Inr s
      | PDate y m \<Rightarrow> Inr (format_sep CHR ''_'' y m)
      | PInt i \<Rightarrow> Inl AttributeError)"

text \<open>
  The monthly folder maps the period string of \<open>no2_data_<period>.tif\<close> to the file.
  The call to \<open>zonal_stats\<close> passes no \<open>nodata\<close>. Every exception inside the \<open>try\<close>
  (opening, reading, the statistics, indexing a \<open>None\<close> entry) ends in \<open>return None\<close>.
\<close>

definition calculate_period_no2_coord_polygon ::
    "zonal \<Rightarrow> (string \<Rightarrow> raster_file) \<Rightarrow> polygon \<Rightarrow> pyval \<Rightarrow> py_error + fl option" where
  "calculate_period_no2_coord_polygon zs no2_data_folder coord_polygon period =
     (case period_str period of
        Inl e \<Rightarrow> Inl e
      | Inr ps \<Rightarrow>
          (case no2_data_folder ps of
             Missing \<Rightarrow> Inr None
           | Unreadable \<Rightarrow> Inr None
           | Raster src \<Rightarrow>
               (case zs coord_polygon (data src) None of
                  Inl e \<Rightarrow> Inr None
                | Inr None \<Rightarrow> Inr None
                | Inr (Some []) \<Rightarrow> Inr None
                | Inr (Some (NoFeature # rest)) \<Rightarrow> Inr None
                | Inr (Some (Feature mean_no2 # rest)) \<Rightarrow> Inr mean_no2)))"

text \<open>
  The record assembly of \<open>create_detailed_city_timepoints\<close>:
  \<open>'value': no2_value if no2_value else 0.0\<close>. \<open>None\<close> and the float zero are falsy;
  every other float, NaN included, is truthy.
\<close>

definition truthy :: "fl option \<Rightarrow> bool" where
  "truthy v = (case v of None \<Rightarrow> False | Some x \<Rightarrow> x \<noteq> Fin 0)"

definition timepoint_value ::
    "zonal \<Rightarrow> (string \<Rightarrow> raster_file) \<Rightarrow> polygon \<Rightarrow> string \<Rightarrow> py_error + fl" where
  "timepoint_value zs no2_monthly_folder geometry ps =
     (case calculate_period_no2_coord_polygon zs no2_monthly_folder geometry (PStr ps) of
        Inl e \<Rightarrow> Inl e
      | Inr no2_value \<Rightarrow>
          Inr (case no2_value of
                 None \<Rightarrow> Fin 0
               | Some x \<Rightarrow> if truthy no2_value then x else Fin 0))"

section \<open>The daily series (\<open>_extract_daily_no2_for_month\<close>)\<close>

text \<open>\<open>calendar.monthrange(year, month)[1]\<close> for the month of a \<open>datetime\<close>.\<close>

definition isleap :: "int \<Rightarrow> bool" where
  "isleap y = (y mod 4 = 0 \<and> (y mod 100 \<noteq> 0 \<or> y mod 400 = 0))"

definition monthrange :: "int \<Rightarrow> int \<Rightarrow> nat" where
  "monthrange y m =
     (if m = 2 then (if isleap y then 29 else 28)
      else if m = 4 \<or> m = 6 \<or> m = 9 \<or> m = 11 then 30 else 31)"

text \<open>
  One pass of the loop body for the file of one day: \<open>Some v\<close> when \<open>v\<close> is appended,
  \<open>None\<close> for every \<open>continue\<close>. Here the call passes \<open>nodata=src.nodata\<close>.
\<close>

definition daily_value :: "zonal \<Rightarrow> polygon \<Rightarrow> raster_file \<Rightarrow> fl option" where
  "daily_value zs coord_polygon file =
     (case file of
        Missing \<Rightarrow> None
      | Unreadable \<Rightarrow> None
      | Raster src \<Rightarrow>
          (case zs coord_polygon (data src) (nodata src) of
             Inl e \<Rightarrow> None
           | Inr None \<Rightarrow> None
           | Inr (Some []) \<Rightarrow> None
           | Inr (Some (NoFeature # rest)) \<Rightarrow> None
           | Inr (Some (Feature None # rest)) \<Rightarrow> None
           | Inr (Some (Feature (Some v) # rest)) \<Rightarrow> if is_nan v then None else Some v))"

text \<open>The \<open>for day in range(1, num_days + 1)\<close> loop, with \<open>daily_values\<close> as accumulator.\<close>

fun extract_loop :: "(nat \<Rightarrow> fl option) \<Rightarrow> nat list \<Rightarrow> fl list \<Rightarrow> fl list" where
  "extract_loop body [] daily_values = daily_values"
| "extract_loop body (day # days) daily_values =
     (case body day of
        None \<Rightarrow> extract_loop body days daily_values
      | Some v \<Rightarrow> extract_loop body days (daily_values @ [v]))"

text \<open>The daily folder maps a date (year, month, day) to the file \<open>no2_data_<date>.tif\<close>.\<close>

definition extract_daily_no2_for_month ::
    "zonal \<Rightarrow> (int \<times> int \<times> nat \<Rightarrow> raster_file) \<Rightarrow> polygon \<Rightarrow> datetime \<Rightarrow> fl list option" where
  "extract_daily_no2_for_month zs daily_data_folder coord_polygon period_dt =
     (let num_days = monthrange (fst period_dt) (snd period_dt);
          daily_values =
            extract_loop
              (\<lambda>day. daily_value zs coord_polygon
                        (daily_data_folder (fst period_dt, snd period_dt, day)))
              [1 ..< num_days + 1] []
      in if length daily_values = 0 then None else Some daily_values)"

section \<open>Monthly aggregation (\<open>aggregate_daily_to_monthly\<close>)\<close>

text \<open>
  The daily folder as the function sees it: the files \<open>no2_data_<date>.tif\<close> whose
  name parses as a date, each with its date (year, month, day) and its content. A
  grid is flattened, so its shape is its number of cells.
\<close>

type_synonym date = "int \<times> int \<times> nat"

text \<open>
  \<open>data = data.astype(np.float32); if src.nodata is not None: data[data == src.nodata] = np.nan\<close>
\<close>

definition nodata_to_nan :: "raster \<Rightarrow> fl list" where
  "nodata_to_nan src =
     (case nodata src of
        None \<Rightarrow> data src
      | Some nd \<Rightarrow> map (\<lambda>v. if fl_eq v nd then NaN else v) (data src))"

text \<open>Reading the files of a month in order; \<open>None\<close> when opening or reading one raises.\<close>

fun read_all :: "raster_file list \<Rightarrow> fl list list option" where
  "read_all [] = Some []"
| "read_all (Raster src # rest) =
     (case read_all rest of None \<Rightarrow> None | Some arrays \<Rightarrow> Some (nodata_to_nan src # arrays))"
| "read_all (Missing # rest) = None"
| "read_all (Unreadable # rest) = None"

text \<open>\<open>np.stack(daily_arrays, axis=0)\<close> raises for no array and for arrays of different shapes.\<close>

definition np_stack :: "fl list list \<Rightarrow> fl list list option" where
  "np_stack arrays =
     (case arrays of
        [] \<Rightarrow> None
      | a # rest \<Rightarrow> if list_all (\<lambda>b. length b = length a) rest then Some arrays else None)"

text \<open>
  \<open>np.nanmean(stacked, axis=0)\<close>: at each cell, the sum of the values that are not
  NaN divided by their number (NaN when there is none).
\<close>

definition nanmean :: "fl list \<Rightarrow> fl" where
  "nanmean column = np_mean (filter (\<lambda>v. \<not> is_nan v) column)"

definition nanmean_axis0 :: "fl list list \<Rightarrow> fl list" where
  "nanmean_axis0 stacked =
     (case stacked of
        [] \<Rightarrow> []
      | a # rest \<Rightarrow> map (\<lambda>i. nanmean (map (\<lambda>arr. arr ! i) stacked)) [0 ..< length a])"

text \<open>
  The body of the loop over the months, for the files of one month: \<open>None\<close> when the
  month is skipped (the day-count gate, or an exception inside the \<open>try\<close>), the
  monthly raster written otherwise. \<open>sorted(daily_files)\<close> orders the files by date.
\<close>

definition aggregate_month :: "bool \<Rightarrow> int \<times> int \<Rightarrow> (date \<times> raster_file) list \<Rightarrow> raster option" where
  "aggregate_month require_all_days year_month daily_files =
     (let num_days_in_month = monthrange (fst year_month) (snd year_month)
      in if require_all_days \<and> length daily_files \<noteq> num_days_in_month then None
         else (case read_all (map snd (sort_key fst daily_files)) of
                 None \<Rightarrow> None
               | Some daily_arrays \<Rightarrow>
                   (case np_stack daily_arrays of
                      None \<Rightarrow> None
                    | Some stacked \<Rightarrow>
                        Some \<lparr>data = map (\<lambda>v. if is_nan v then Fin (- 9999) else v)
                                         (nanmean_axis0 stacked),
                              nodata = Some (Fin (- 9999))\<rparr>)))"

text \<open>The files are grouped by month; the months are handled in sorted order.\<close>

definition year_month_of :: "date \<times> raster_file \<Rightarrow> int \<times> int" where
  "year_month_of file = (fst (fst file), fst (snd (fst file)))"

definition aggregate_daily_to_monthly ::
    "(date \<times> raster_file) list \<Rightarrow> bool \<Rightarrow> ((int \<times> int) \<times> raster) list" where
  "aggregate_daily_to_monthly daily_folder require_all_days =
     List.map_filter
       (\<lambda>ym. map_option (Pair ym)
                (aggregate_month require_all_days ym
                   (filter (\<lambda>file. year_month_of file = ym) daily_folder)))
       (sort (remdups (map year_month_of daily_folder)))"

text \<open>
  The samples of a cell that count: over the daily rasters, the values at the cell
  that are neither NaN nor equal to that raster's nodata sentinel.
\<close>

definition is_nodata :: "raster \<Rightarrow> fl \<Rightarrow> bool" where
  "is_nodata src v = (case nodata src of None \<Rightarrow> False | Some nd \<Rightarrow> fl_eq v nd)"

definition valid_samples :: "raster list \<Rightarrow> nat \<Rightarrow> fl list" where
  "valid_samples rasters i =
     filter (\<lambda>v. \<not> is_nan v)
       (map (\<lambda>src. data src ! i) (filter (\<lambda>src. \<not> is_nodata src (data src ! i)) rasters))"

text \<open>
  The value of a cell of the monthly grid: the mean of the samples that count, or
  -9999 when there is none or the mean is NaN.
\<close>

definition monthly_pixel :: "raster list \<Rightarrow> nat \<Rightarrow> fl" where
  "monthly_pixel rasters i =
     (let vs = valid_samples rasters i
      in if vs = [] \<or> is_nan (np_mean vs) then Fin (- 9999) else np_mean vs)"

section \<open>Sample statistics (\<open>numpy\<close>, \<open>scipy\<close>)\<close>

text \<open>
  \<open>np.var(x, ddof=1)\<close> and \<open>np.std(x, ddof=1)\<close>: the squared deviations from the mean,
  summed and divided by \<open>max(n - 1, 0)\<close>.
\<close>

definition np_var :: "fl list \<Rightarrow> fl" where
  "np_var xs =
     (let mu = np_mean xs
      in fl_div (np_sum (map (\<lambda>x. fl_mul (fl_sub x mu) (fl_sub x mu)) xs))
                (Fin (real (length xs - 1))))"

definition np_std :: "fl list \<Rightarrow> fl" where
  "np_std xs = fl_sqrt (np_var xs)"

text \<open>
  \<open>scipy.stats.ttest_ind(a, b)\<close>, an external library, called with its defaults
  (\<open>equal_var=True\<close>, two-sided): Student's test with the pooled variance,
  \<open>df = n1 + n2 - 2\<close>, \<open>svar = ((n1 - 1) v1 + (n2 - 1) v2) / df\<close>,
  \<open>denom = sqrt(svar (1/n1 + 1/n2))\<close>, \<open>t = (mean1 - mean2) / denom\<close> by numpy's
  division, and \<open>prob = 2 stdtr(df, -|t|)\<close>. The distribution function \<open>stdtr\<close> of
  Student's t is a parameter; at an infinite \<open>t\<close> the probability is 0, at NaN it is
  NaN. The code calls it only with non-empty samples.
\<close>

definition ttest_finish :: "(real \<Rightarrow> real \<Rightarrow> real) \<Rightarrow> real \<Rightarrow> fl \<Rightarrow> fl" where
  "ttest_finish stdtr df t =
     (case t of
        Fin x \<Rightarrow> Fin (2 * stdtr df (- \<bar>x\<bar>))
      | PInf \<Rightarrow> Fin 0
      | NInf \<Rightarrow> Fin 0
      | NaN \<Rightarrow> NaN)"

definition ttest_ind :: "(real \<Rightarrow> real \<Rightarrow> real) \<Rightarrow> fl list \<Rightarrow> fl list \<Rightarrow> fl \<times> fl" where
  "ttest_ind stdtr a b =
     (let n1 = real (length a); n2 = real (length b);
          v1 = np_var a; v2 = np_var b;
          df = n1 + n2 - 2;
          svar = fl_div (fl_add (fl_mul (Fin (n1 - 1)) v1) (fl_mul (Fin (n2 - 1)) v2)) (Fin df);
          denom = fl_sqrt (fl_mul svar (Fin (1 / n1 + 1 / n2)));
          t = fl_div (fl_sub (np_mean a) (np_mean b)) denom
      in (t, ttest_finish stdtr df t))"

section \<open>The significance test (\<open>calculate_no2_significance\<close>)\<close>

text \<open>
  The interpretation text. The message is kept in its parts (the significance band,
  the effect-size band and the numbers the f-strings print) instead of the formatted
  characters.
\<close>

datatype sig_text = HighlySignificant | VerySignificant | Significant fl | NotSignificant fl

datatype effect_text = Negligible | Small | Medium | Large

datatype interp = InsufficientData | Interpretation sig_text effect_text fl

definition generate_interpretation :: "bool \<Rightarrow> fl \<Rightarrow> fl \<Rightarrow> fl \<Rightarrow> interp" where
  "generate_interpretation is_significant p_val pct_change d =
     (let sig = (if is_significant
                 then (if fl_lt p_val (Fin 0.001) then HighlySignificant
                       else if fl_lt p_val (Fin 0.01) then VerySignificant
                       else Significant p_val)
                 else NotSignificant p_val);
          abs_d = fl_abs d;
          effect = (if fl_lt abs_d (Fin 0.2) then Negligible
                    else if fl_lt abs_d (Fin 0.5) then Small
                    else if fl_lt abs_d (Fin 0.8) then Medium
                    else Large)
      in Interpretation sig effect d)"

text \<open>
  The returned dictionary: the three keys every result has, and the remaining keys,
  which only the full result has.
\<close>

record details =
  t_statistic :: fl
  target_mean :: fl
  baseline_mean :: fl
  target_std :: fl
  baseline_std :: fl
  percent_change :: fl
  cohens_d :: fl
  n_target :: nat
  n_baseline :: nat
  target_period :: datetime
  baseline_period :: "datetime list"

record verdict =
  significant :: bool
  p_value :: fl
  interpretation_text :: interp
  details :: "details option"

definition insufficient :: verdict where
  "insufficient =
     \<lparr>significant = False, p_value = Fin 1, interpretation_text = InsufficientData, details = None\<rparr>"

text \<open>The code from the t-test to the returned dictionary (both samples are large enough).\<close>

definition significance_test ::
    "(real \<Rightarrow> real \<Rightarrow> real) \<Rightarrow> fl \<Rightarrow> datetime \<Rightarrow> datetime list \<Rightarrow> fl list \<Rightarrow> fl list \<Rightarrow> verdict" where
  "significance_test stdtr alpha target_dt baseline_dts target_daily baseline_daily_all =
     (let (t_stat, p_val) = ttest_ind stdtr baseline_daily_all target_daily;
          t_mean = np_mean target_daily;
          b_mean = np_mean baseline_daily_all;
          t_std = np_std target_daily;
          b_std = np_std baseline_daily_all;
          pooled_std =
            fl_sqrt
              (fl_div
                 (fl_add (fl_mul (Fin (real (length baseline_daily_all) - 1)) (fl_mul b_std b_std))
                         (fl_mul (Fin (real (length target_daily) - 1)) (fl_mul t_std t_std)))
                 (Fin (real (length baseline_daily_all) + real (length target_daily) - 2)));
          d = (if fl_lt (Fin 0) pooled_std then fl_div (fl_sub t_mean b_mean) pooled_std
               else Fin 0);
          pct = (if \<not> fl_eq b_mean (Fin 0)
                 then fl_mul (fl_div (fl_sub t_mean b_mean) b_mean) (Fin 100)
                 else Fin 0);
          is_significant = fl_lt p_val alpha
      in \<lparr>significant = is_significant,
          p_value = p_val,
          interpretation_text = generate_interpretation is_significant p_val pct d,
          details = Some
            \<lparr>t_statistic = t_stat, target_mean = t_mean, baseline_mean = b_mean,
             target_std = t_std, baseline_std = b_std, percent_change = pct, cohens_d = d,
             n_target = length target_daily, n_baseline = length baseline_daily_all,
             target_period = target_dt, baseline_period = baseline_dts\<rparr>\<rparr>)"

text \<open>
  The loop over the baseline periods, with \<open>baseline_daily_all\<close> and \<open>baseline_dts\<close>
  as accumulators. A period that cannot be resolved raises; a period without data is
  left out.
\<close>

fun baseline_loop ::
    "zonal \<Rightarrow> (int \<times> int \<times> nat \<Rightarrow> raster_file) \<Rightarrow> polygon \<Rightarrow> datetime \<Rightarrow> pyval list
     \<Rightarrow> fl list \<Rightarrow> datetime list \<Rightarrow> py_error + fl list \<times> datetime list" where
  "baseline_loop zs folder poly target_dt [] baseline_daily_all baseline_dts =
     Inr (baseline_daily_all, baseline_dts)"
| "baseline_loop zs folder poly target_dt (baseline_p # rest) baseline_daily_all baseline_dts =
     (case baseline_dt target_dt baseline_p of
        Inl e \<Rightarrow> Inl e
      | Inr bdt \<Rightarrow>
          (case extract_daily_no2_for_month zs folder poly bdt of
             None \<Rightarrow> baseline_loop zs folder poly target_dt rest baseline_daily_all baseline_dts
           | Some baseline_daily \<Rightarrow>
               baseline_loop zs folder poly target_dt rest
                 (baseline_daily_all @ baseline_daily) (baseline_dts @ [bdt])))"

text \<open>The \<open>baseline_period\<close> argument: one period value, or a list or tuple of them.\<close>

datatype baseline_arg = One pyval | Many "pyval list"

definition baseline_periods :: "baseline_arg \<Rightarrow> pyval list" where
  "baseline_periods baseline = (case baseline of Many ps \<Rightarrow> ps | One p \<Rightarrow> [p])"

definition calculate_no2_significance ::
    "(real \<Rightarrow> real \<Rightarrow> real) \<Rightarrow> zonal \<Rightarrow> (int \<times> int \<times> nat \<Rightarrow> raster_file) \<Rightarrow> polygon
     \<Rightarrow> pyval \<Rightarrow> baseline_arg \<Rightarrow> fl \<Rightarrow> py_error + verdict" where
  "calculate_no2_significance stdtr zs daily_data_folder coord_polygon target baseline alpha =
     (case parse_period target of
        Inl e \<Rightarrow> Inl e
      | Inr target_dt \<Rightarrow>
          (case baseline_loop zs daily_data_folder coord_polygon target_dt
                     (baseline_periods baseline) [] [] of
                Inl e \<Rightarrow> Inl e
              | Inr (baseline_daily_all, baseline_dts) \<Rightarrow>
                  (case extract_daily_no2_for_month zs daily_data_folder coord_polygon target_dt of
                     None \<Rightarrow> Inr insufficient
                   | Some target_daily \<Rightarrow>
                       if length baseline_daily_all < 3 \<or> length target_daily < 3
                       then Inr insufficient
                       else Inr (significance_test stdtr alpha target_dt baseline_dts
                                   target_daily baseline_daily_all))))"

text \<open>Reading a key of the result: \<open>None\<close> when the call raised or the key is not there.\<close>

definition detail :: "(details \<Rightarrow> 'a) \<Rightarrow> py_error + verdict \<Rightarrow> 'a option" where
  "detail key r = (case r of Inl e \<Rightarrow> None | Inr v \<Rightarrow> map_option key (details v))"

definition p_value_of :: "py_error + verdict \<Rightarrow> fl option" where
  "p_value_of r = (case r of Inl e \<Rightarrow> None | Inr v \<Rightarrow> Some (p_value v))"

definition significant_of :: "py_error + verdict \<Rightarrow> bool option" where
  "significant_of r = (case r of Inl e \<Rightarrow> None | Inr v \<Rightarrow> Some (significant v))"

section \<open>The significance test with the numerical library as a parameter\<close>

text \<open>
  The functions above compute with exact real numbers on finite values. The code
  computes with \<open>float64\<close>, whose operations round and overflow, and \<open>np.mean\<close>
  and \<open>np.std\<close> sum in an order of their own. Here the same code is written over an
  arbitrary numerical library: \<open>np.mean\<close>, \<open>np.std(., ddof=1)\<close>, \<open>np.sqrt\<close>,
  \<open>ttest_ind\<close> and the arithmetic of \<open>float64\<close> (\<open>+\<close>, \<open>-\<close>, \<open>*\<close>, \<open>/\<close>,
  \<open>** 2\<close>) are total functions of which nothing else is assumed; none of them
  raises. Comparisons do not round and stay as they are.
\<close>

record numlib =
  lib_mean :: "fl list \<Rightarrow> fl"
  lib_std :: "fl list \<Rightarrow> fl"
  lib_sqrt :: "fl \<Rightarrow> fl"
  lib_ttest :: "fl list \<Rightarrow> fl list \<Rightarrow> fl \<times> fl"
  f_add :: "fl \<Rightarrow> fl \<Rightarrow> fl"
  f_sub :: "fl \<Rightarrow> fl \<Rightarrow> fl"
  f_mul :: "fl \<Rightarrow> fl \<Rightarrow> fl"
  f_div :: "fl \<Rightarrow> fl \<Rightarrow> fl"
  f_sq :: "fl \<Rightarrow> fl"

text \<open>
  \<open>pooled_std = np.sqrt(((len(baseline)-1)*baseline_std**2 + (len(target)-1)*target_std**2)
  / (len(baseline) + len(target) - 2))\<close>
\<close>

definition pooled_std_with :: "numlib \<Rightarrow> fl list \<Rightarrow> fl list \<Rightarrow> fl" where
  "pooled_std_with L target_daily baseline_daily_all =
     lib_sqrt L
       (f_div L
          (f_add L
             (f_mul L (Fin (real (length baseline_daily_all) - 1))
                      (f_sq L (lib_std L baseline_daily_all)))
             (f_mul L (Fin (real (length target_daily) - 1))
                      (f_sq L (lib_std L target_daily))))
          (Fin (real (length baseline_daily_all) + real (length target_daily) - 2)))"

definition significance_test_with ::
    "numlib \<Rightarrow> fl \<Rightarrow> datetime \<Rightarrow> datetime list \<Rightarrow> fl list \<Rightarrow> fl list \<Rightarrow> verdict" where
  "significance_test_with L alpha target_dt baseline_dts target_daily baseline_daily_all =
     (let (t_stat, p_val) = lib_ttest L baseline_daily_all target_daily;
          t_mean = lib_mean L target_daily;
          b_mean = lib_mean L baseline_daily_all;
          t_std = lib_std L target_daily;
          b_std = lib_std L baseline_daily_all;
          pooled_std = pooled_std_with L target_daily baseline_daily_all;
          d = (if fl_lt (Fin 0) pooled_std then f_div L (f_sub L t_mean b_mean) pooled_std
               else Fin 0);
          pct = (if \<not> fl_eq b_mean (Fin 0)
                 then f_mul L (f_div L (f_sub L t_mean b_mean) b_mean) (Fin 100)
                 else Fin 0);
          is_significant = fl_lt p_val alpha
      in \<lparr>significant = is_significant,
          p_value = p_val,
          interpretation_text = generate_interpretation is_significant p_val pct d,
          details = Some
            \<lparr>t_statistic = t_stat, target_mean = t_mean, baseline_mean = b_mean,
             target_std = t_std, baseline_std = b_std, percent_change = pct, cohens_d = d,
             n_target = length target_daily, n_baseline = length baseline_daily_all,
             target_period = target_dt, baseline_period = baseline_dts\<rparr>\<rparr>)"

definition calculate_no2_significance_with ::
    "numlib \<Rightarrow> zonal \<Rightarrow> (int \<times> int \<times> nat \<Rightarrow> raster_file) \<Rightarrow> polygon
     \<Rightarrow> pyval \<Rightarrow> baseline_arg \<Rightarrow> fl \<Rightarrow> py_error + verdict" where
  "calculate_no2_significance_with L zs daily_data_folder coord_polygon target baseline alpha =
     (case parse_period target of
        Inl e \<Rightarrow> Inl e
      | Inr target_dt \<Rightarrow>
          (case baseline_loop zs daily_data_folder coord_polygon target_dt
                     (baseline_periods baseline) [] [] of
                Inl e \<Rightarrow> Inl e
              | Inr (baseline_daily_all, baseline_dts) \<Rightarrow>
                  (case extract_daily_no2_for_month zs daily_data_folder coord_polygon target_dt of
                     None \<Rightarrow> Inr insufficient
                   | Some target_daily \<Rightarrow>
                       if length baseline_daily_all < 3 \<or> length target_daily < 3
                       then Inr insufficient
                       else Inr (significance_test_with L alpha target_dt baseline_dts
                                   target_daily baseline_daily_all))))"

text \<open>The library with exact arithmetic; with it the two versions are the same function.\<close>

definition exact_lib :: "(real \<Rightarrow> real \<Rightarrow> real) \<Rightarrow> numlib" where
  "exact_lib stdtr =
     \<lparr>lib_mean = np_mean, lib_std = np_std, lib_sqrt = fl_sqrt, lib_ttest = ttest_ind stdtr,
      f_add = fl_add, f_sub = fl_sub, f_mul = fl_mul, f_div = fl_div,
      f_sq = (\<lambda>x. fl_mul x x)\<rparr>"

section \<open>Reference statistics on real samples\<close>

text \<open>
  The textbook quantities the results are compared with: the mean, the
  Bessel-corrected sample variance, the pooled variance weighted by degrees of
  freedom, Student's t statistic (pooled variance; \<open>student_t_fl\<close> is the same
  quotient by numpy's division, which is an infinity or NaN when the pooled variance
  is 0) and Welch's t statistic (separate variances).
\<close>

definition mean :: "real list \<Rightarrow> real" where
  "mean xs = sum_list xs / real (length xs)"

definition sample_var :: "real list \<Rightarrow> real" where
  "sample_var xs = (\<Sum>x\<leftarrow>xs. (x - mean xs)\<^sup>2) / (real (length xs) - 1)"

definition pooled_var :: "real list \<Rightarrow> real list \<Rightarrow> real" where
  "pooled_var xs ys =
     ((real (length xs) - 1) * sample_var xs + (real (length ys) - 1) * sample_var ys)
       / (real (length xs) + real (length ys) - 2)"

definition student_t :: "real list \<Rightarrow> real list \<Rightarrow> real" where
  "student_t xs ys =
     (mean xs - mean ys) / sqrt (pooled_var xs ys * (1 / real (length xs) + 1 / real (length ys)))"

definition student_t_fl :: "real list \<Rightarrow> real list \<Rightarrow> fl" where
  "student_t_fl xs ys =
     fl_div (Fin (mean xs - mean ys))
       (Fin (sqrt (pooled_var xs ys * (1 / real (length xs) + 1 / real (length ys)))))"

definition welch_t :: "real list \<Rightarrow> real list \<Rightarrow> real" where
  "welch_t xs ys =
     (mean xs - mean ys)
       / sqrt (sample_var xs / real (length xs) + sample_var ys / real (length ys))"

text \<open>
  A daily folder that holds a given series of finite values for each month: day
  \<open>d\<close> of the month is a one-cell raster with the \<open>d\<close>-th value, later days have
  no file.
\<close>

definition series_folder :: "(datetime \<Rightarrow> real list) \<Rightarrow> int \<times> int \<times> nat \<Rightarrow> raster_file" where
  "series_folder series =
     (\<lambda>(y, m, day).
        if 1 \<le> day \<and> day \<le> length (series (y, m))
        then Raster \<lparr>data = [Fin (series (y, m) ! (day - 1))], nodata = None\<rparr>
        else Missing)"

text \<open>The folder with one series for April 2021 and one for April 2019.\<close>

definition two_month_series :: "real list \<Rightarrow> real list \<Rightarrow> datetime \<Rightarrow> real list" where
  "two_month_series xs ys = (\<lambda>dt. if dt = (2021, 4) then xs else if dt = (2019, 4) then ys else [])"

section \<open>Proofs: period parsing\<close>

lemma digit_cases: "d < 10 \<Longrightarrow> d \<in> {0, 1, 2, 3, 4, 5, 6, 7, 8, 9::nat}"
  by auto

lemma is_digit_digit_char: "d < 10 \<Longrightarrow> is_digit (digit_char d)"
  by (drule digit_cases) (auto simp: is_digit_def digit_char_def)

lemma digit_val_digit_char: "d < 10 \<Longrightarrow> digit_val (digit_char d) = int d"
  by (drule digit_cases) (auto simp: digit_val_def digit_char_def)

lemma dec_all_digits: "list_all is_digit (dec n)"
proof (induction n rule: dec.induct)
  case (1 n)
  show ?case
  proof (cases "n < 10")
    case True
    then show ?thesis by (subst dec.simps) (simp add: is_digit_digit_char)
  next
    case False
    with 1 show ?thesis
      by (subst dec.simps) (simp add: is_digit_digit_char)
  qed
qed

lemma dec_nonempty: "dec n \<noteq> []"
  by (subst dec.simps) simp

lemma digits_to_int_append:
  "list_all is_digit ds \<Longrightarrow> is_digit c \<Longrightarrow>
   digits_to_int acc (ds @ [c]) = map_option (\<lambda>v. 10 * v + digit_val c) (digits_to_int acc ds)"
  by (induction ds arbitrary: acc) auto

lemma digits_to_int_dec: "digits_to_int 0 (dec n) = Some (int n)"
proof (induction n rule: dec.induct)
  case (1 n)
  show ?case
  proof (cases "n < 10")
    case True
    then show ?thesis
      by (subst dec.simps) (simp add: is_digit_digit_char digit_val_digit_char)
  next
    case False
    then have "digits_to_int 0 (dec n) =
        map_option (\<lambda>v. 10 * v + digit_val (digit_char (n mod 10))) (digits_to_int 0 (dec (n div 10)))"
      by (subst dec.simps) (simp add: digits_to_int_append dec_all_digits is_digit_digit_char)
    also have "\<dots> = Some (10 * int (n div 10) + int (n mod 10))"
      using 1 False by (simp add: digit_val_digit_char)
    also have "10 * int (n div 10) + int (n mod 10) = int n"
      by presburger
    finally show ?thesis .
  qed
qed

lemma digits_to_int_zeros:
  "digits_to_int 0 (replicate k CHR ''0'' @ ds) = digits_to_int 0 ds"
  by (induction k) (simp_all add: is_digit_def digit_val_def)

lemma dropWhile_none: "list_all (\<lambda>x. \<not> P x) xs \<Longrightarrow> dropWhile P xs = xs"
  by (cases xs) auto

lemma digit_not_space: "is_digit c \<Longrightarrow> \<not> is_space c"
  unfolding is_digit_def is_space_def by (elim disjE | simp)+

lemma digit_not_sign: "is_digit c \<Longrightarrow> c \<noteq> CHR ''-'' \<and> c \<noteq> CHR ''+'' \<and> c \<noteq> CHR ''_''"
  by (auto simp: is_digit_def)

lemma strip_digits: "list_all is_digit s \<Longrightarrow> strip s = s"
proof -
  assume a: "list_all is_digit s"
  then have 1: "list_all (\<lambda>x. \<not> is_space x) s"
    by (auto simp: list_all_iff digit_not_space)
  then have 2: "list_all (\<lambda>x. \<not> is_space x) (rev s)"
    by (simp add: list_all_iff)
  show ?thesis
    unfolding strip_def using 1 2 by (simp add: dropWhile_none)
qed

lemma is_digit_zero: "is_digit CHR ''0''"
  by (simp add: is_digit_def)

lemma zfill_all_digits: "list_all is_digit (zfill w (dec n))"
  using dec_all_digits [of n] is_digit_zero by (auto simp: zfill_def list_all_iff)

lemma zfill_nonempty: "zfill w (dec n) \<noteq> []"
  by (simp add: zfill_def dec_nonempty)

lemma py_int_zfill: "py_int (zfill w (dec n)) = Some (int n)"
proof -
  let ?s = "zfill w (dec n)"
  have d: "list_all is_digit ?s" by (rule zfill_all_digits)
  have ne: "?s \<noteq> []" by (rule zfill_nonempty)
  then have hd: "is_digit (hd ?s)" using d by (cases ?s) auto
  have v: "digits_to_int 0 ?s = Some (int n)"
    by (simp add: zfill_def digits_to_int_zeros digits_to_int_dec)
  show ?thesis
    using hd ne v digit_not_sign [OF hd]
    by (simp add: py_int_def strip_digits [OF d] Let_def)
qed

lemma split_on_nonempty: "split_on sep s \<noteq> []"
  by (induction s) (auto split: list.splits)

lemma split_on_none: "sep \<notin> set s \<Longrightarrow> split_on sep s = [s]"
  by (induction s) auto

lemma split_on_first:
  "sep \<notin> set a \<Longrightarrow> split_on sep (a @ sep # r) = a # split_on sep r"
  by (induction a) auto

lemma split_on_two:
  "split_on sep s = [a, b] \<Longrightarrow> s = a @ sep # b \<and> sep \<notin> set a \<and> sep \<notin> set b"
proof (induction s arbitrary: a)
  case Nil
  then show ?case by simp
next
  case (Cons c cs)
  show ?case
  proof (cases "c = sep")
    case True
    with Cons.prems have a: "a = []" and b: "split_on sep cs = [b]" by auto
    have "sep \<notin> set cs \<and> cs = b"
    proof (rule ccontr)
      assume n: "\<not> (sep \<notin> set cs \<and> cs = b)"
      show False
      proof (cases "sep \<in> set cs")
        case False
        then show False using n b by (simp add: split_on_none)
      next
        case True
        then obtain u v where "cs = u @ sep # v" "sep \<notin> set u"
          by (meson split_list_first)
        then have "split_on sep cs = u # split_on sep v"
          by (simp add: split_on_first)
        with b show False using split_on_nonempty [of sep v] by simp
      qed
    qed
    with True a show ?thesis by auto
  next
    case False
    with Cons.prems obtain p where p: "split_on sep cs = [p, b]" and a: "a = c # p"
      by (auto split: list.splits)
    from Cons.IH [OF p] False a show ?thesis by simp
  qed
qed

lemma digits_no_sep: "list_all is_digit s \<Longrightarrow> \<not> is_digit sep \<Longrightarrow> sep \<notin> set s"
  by (auto simp: list_all_iff)

lemma parse_fields_format:
  assumes "1 \<le> y" "y \<le> 9999" "1 \<le> m" "m \<le> 12" "\<not> is_digit sep"
  shows "parse_fields sep (format_sep sep y m) = Inr (y, m)"
proof -
  let ?a = "zfill 4 (dec (nat y))" and ?b = "zfill 2 (dec (nat m))"
  have "sep \<notin> set ?a" "sep \<notin> set ?b"
    using assms(5) by (simp_all add: digits_no_sep zfill_all_digits)
  then have "split_on sep (format_sep sep y m) = [?a, ?b]"
    by (simp add: format_sep_def split_on_first split_on_none)
  then show ?thesis
    using assms by (simp add: parse_fields_def py_int_zfill mk_datetime_def)
qed

lemma sep_in_format: "sep \<in> set (format_sep sep y m)"
  by (simp add: format_sep_def)

lemma underscore_notin_dash_format: "CHR ''_'' \<notin> set (format_sep CHR ''-'' y m)"
proof -
  have "\<not> is_digit CHR ''_''" by (simp add: is_digit_def)
  then show ?thesis
    by (simp add: format_sep_def digits_no_sep zfill_all_digits)
qed

lemma length_dec_1: "n < 10 \<Longrightarrow> length (dec n) = 1"
  by (subst dec.simps) simp

lemma length_dec_2: "n < 100 \<Longrightarrow> length (dec n) \<le> 2"
proof -
  assume "n < 100"
  then have "n div 10 < 10" by simp
  then show ?thesis by (subst dec.simps) (simp add: length_dec_1)
qed

lemma length_dec_3: "n < 1000 \<Longrightarrow> length (dec n) \<le> 3"
proof -
  assume "n < 1000"
  then have "n div 10 < 100" by simp
  then have "length (dec (n div 10)) \<le> 2" by (rule length_dec_2)
  then show ?thesis by (subst dec.simps) simp
qed

lemma length_dec_4: "n < 10000 \<Longrightarrow> length (dec n) \<le> 4"
proof -
  assume "n < 10000"
  then have "n div 10 < 1000" by simp
  then have "length (dec (n div 10)) \<le> 3" by (rule length_dec_3)
  then show ?thesis by (subst dec.simps) simp
qed

lemma length_format_year: "0 \<le> y \<Longrightarrow> y \<le> 9999 \<Longrightarrow> length (format_year y) = 4"
  using length_dec_4 [of "nat y"] by (simp add: format_year_def zfill_def)

lemma parse_fields_sound:
  assumes "parse_fields sep s = Inr (y, m)"
  shows "\<exists>ys ms. s = ys @ sep # ms \<and> sep \<notin> set ys \<and> sep \<notin> set ms
           \<and> py_int ys = Some y \<and> py_int ms = Some m
           \<and> 1 \<le> y \<and> y \<le> 9999 \<and> 1 \<le> m \<and> m \<le> 12"
proof -
  from assms obtain ys ms where sp: "split_on sep s = [ys, ms]"
    by (auto simp: parse_fields_def split: list.splits)
  with assms have "py_int ys = Some y \<and> py_int ms = Some m
      \<and> 1 \<le> y \<and> y \<le> 9999 \<and> 1 \<le> m \<and> m \<le> 12"
    by (auto simp: parse_fields_def mk_datetime_def split: option.splits if_splits)
  with split_on_two [OF sp] show ?thesis by blast
qed

lemma parse_fields_complete:
  assumes "sep \<notin> set ys" "sep \<notin> set ms" "py_int ys = Some y" "py_int ms = Some m"
      and "1 \<le> y" "y \<le> 9999" "1 \<le> m" "m \<le> 12"
  shows "parse_fields sep (ys @ sep # ms) = Inr (y, m)"
proof -
  have "split_on sep (ys @ sep # ms) = [ys, ms]"
    using assms(1,2) by (simp add: split_on_first split_on_none)
  then show ?thesis
    using assms by (simp add: parse_fields_def mk_datetime_def)
qed

lemma parse_period_accepts:
  "parse_period (PStr s) = Inr (y, m) \<longleftrightarrow>
     (\<exists>ys ms sep. (sep = CHR ''_'' \<or> sep = CHR ''-'' \<and> CHR ''_'' \<notin> set s)
        \<and> s = ys @ sep # ms \<and> sep \<notin> set ys \<and> sep \<notin> set ms
        \<and> py_int ys = Some y \<and> py_int ms = Some m
        \<and> 1 \<le> y \<and> y \<le> 9999 \<and> 1 \<le> m \<and> m \<le> 12)"
proof
  assume a: "parse_period (PStr s) = Inr (y, m)"
  then consider "CHR ''_'' \<in> set s" "parse_fields CHR ''_'' s = Inr (y, m)"
    | "CHR ''_'' \<notin> set s" "parse_fields CHR ''-'' s = Inr (y, m)"
    by (auto simp: parse_period_def split: if_splits)
  then show "\<exists>ys ms sep. (sep = CHR ''_'' \<or> sep = CHR ''-'' \<and> CHR ''_'' \<notin> set s)
        \<and> s = ys @ sep # ms \<and> sep \<notin> set ys \<and> sep \<notin> set ms
        \<and> py_int ys = Some y \<and> py_int ms = Some m
        \<and> 1 \<le> y \<and> y \<le> 9999 \<and> 1 \<le> m \<and> m \<le> 12"
  proof cases
    case 1
    from parse_fields_sound [OF 1(2)] show ?thesis by blast
  next
    case 2
    from parse_fields_sound [OF 2(2)] 2(1) show ?thesis by blast
  qed
next
  assume "\<exists>ys ms sep. (sep = CHR ''_'' \<or> sep = CHR ''-'' \<and> CHR ''_'' \<notin> set s)
        \<and> s = ys @ sep # ms \<and> sep \<notin> set ys \<and> sep \<notin> set ms
        \<and> py_int ys = Some y \<and> py_int ms = Some m
        \<and> 1 \<le> y \<and> y \<le> 9999 \<and> 1 \<le> m \<and> m \<le> 12"
  then obtain ys ms sep where sep: "sep = CHR ''_'' \<or> sep = CHR ''-'' \<and> CHR ''_'' \<notin> set s"
    and s: "s = ys @ sep # ms"
    and f: "sep \<notin> set ys" "sep \<notin> set ms" "py_int ys = Some y" "py_int ms = Some m"
       "1 \<le> y" "y \<le> 9999" "1 \<le> m" "m \<le> 12"
    by blast
  have pf: "parse_fields sep s = Inr (y, m)"
    unfolding s using f by (rule parse_fields_complete)
  have "sep \<in> set s" by (simp add: s)
  with sep pf show "parse_period (PStr s) = Inr (y, m)"
    by (auto simp: parse_period_def)
qed

lemma baseline_dt_accepts:
  assumes "1 \<le> tm" "tm \<le> 12"
  shows "baseline_dt (ty, tm) p = Inr (y, m) \<longleftrightarrow>
     (py_str_len p = 4 \<and> py_int_of p = Inr y \<and> m = tm \<and> 1 \<le> y \<and> y \<le> 9999)
     \<or> (py_str_len p \<noteq> 4 \<and> parse_period p = Inr (y, m))"
  using assms
  by (auto simp: baseline_dt_def mk_datetime_def split: sum.splits if_splits)

lemma example_bare_years:
  "py_str_len (PInt 2019) = 4"
  "py_str_len (PStr ''19_4'') = 4"
  "py_int_of (PInt 2019) = Inr 2019"
  "py_int_of (PStr ''19_4'') = Inr 194"
  by code_simp+

text \<open>
  C9 (as amended). For every valid (year, month): the strings \<open>YYYY_MM\<close> and
  \<open>YYYY-MM\<close> formatted from the pair resolve back to it; a \<open>datetime\<close> resolves
  to its own (year, month); in the baseline loop the bare year \<open>YYYY\<close> resolves to
  (year, target month). In \<open>_parse_period\<close> a string with neither \<open>_\<close> nor
  \<open>-\<close>, and a value that is neither a string nor a \<open>datetime\<close>, fail with
  \<open>ValueError\<close>; a string with a separator is read leniently through \<open>int()\<close>: it
  is accepted exactly when it is two fields around the separator that \<open>int()\<close> reads
  as a valid year and month, and it resolves to these two integers. The baseline
  loop takes every value whose \<open>str()\<close> has 4 characters as a bare year: it is
  accepted exactly when \<open>int()\<close> reads it as a year in 1..9999, and resolves to that
  year with the target's month; so the integer 2019 resolves to (2019, target month)
  and the string \<open>19_4\<close> to (194, target month). Every other baseline value goes
  through \<open>_parse_period\<close>.
\<close>

theorem period_round_trip:
  assumes "1 \<le> y" "y \<le> 9999" "1 \<le> m" "m \<le> 12" "1 \<le> tm" "tm \<le> 12"
  shows "parse_period (PStr (format_sep CHR ''_'' y m)) = Inr (y, m)
       \<and> parse_period (PStr (format_sep CHR ''-'' y m)) = Inr (y, m)
       \<and> parse_period (PDate y m) = Inr (y, m)
       \<and> baseline_dt (ty, tm) (PStr (format_year y)) = Inr (y, tm)
       \<and> (\<forall>s. CHR ''_'' \<notin> set s \<and> CHR ''-'' \<notin> set s
              \<longrightarrow> parse_period (PStr s) = Inl ValueError)
       \<and> (\<forall>i. parse_period (PInt i) = Inl ValueError)
       \<and> (\<forall>s y' m'. parse_period (PStr s) = Inr (y', m') \<longleftrightarrow>
              (\<exists>ys ms sep. (sep = CHR ''_'' \<or> sep = CHR ''-'' \<and> CHR ''_'' \<notin> set s)
                 \<and> s = ys @ sep # ms \<and> sep \<notin> set ys \<and> sep \<notin> set ms
                 \<and> py_int ys = Some y' \<and> py_int ms = Some m'
                 \<and> 1 \<le> y' \<and> y' \<le> 9999 \<and> 1 \<le> m' \<and> m' \<le> 12))
       \<and> (\<forall>p y' m'. baseline_dt (ty, tm) p = Inr (y', m') \<longleftrightarrow>
              (py_str_len p = 4 \<and> py_int_of p = Inr y' \<and> m' = tm \<and> 1 \<le> y' \<and> y' \<le> 9999)
              \<or> (py_str_len p \<noteq> 4 \<and> parse_period p = Inr (y', m')))
       \<and> baseline_dt (ty, tm) (PInt 2019) = Inr (2019, tm)
       \<and> baseline_dt (ty, tm) (PStr ''19_4'') = Inr (194, tm)"
proof -
  have nd: "\<not> is_digit CHR ''_''" "\<not> is_digit CHR ''-''"
    by (simp_all add: is_digit_def)
  have a: "parse_period (PStr (format_sep CHR ''_'' y m)) = Inr (y, m)"
    using assms nd by (simp add: parse_period_def sep_in_format parse_fields_format)
  have b: "parse_period (PStr (format_sep CHR ''-'' y m)) = Inr (y, m)"
    using assms nd
    by (simp add: parse_period_def sep_in_format underscore_notin_dash_format
        parse_fields_format)
  have c: "parse_period (PDate y m) = Inr (y, m)"
    by (simp add: parse_period_def)
  have "py_int (format_year y) = Some y"
    using assms by (simp add: format_year_def py_int_zfill)
  then have d: "baseline_dt (ty, tm) (PStr (format_year y)) = Inr (y, tm)"
    using assms
    by (simp add: baseline_dt_def py_str_len_def py_int_of_def length_format_year
        mk_datetime_def)
  have e: "\<forall>s. CHR ''_'' \<notin> set s \<and> CHR ''-'' \<notin> set s
              \<longrightarrow> parse_period (PStr s) = Inl ValueError"
    by (simp add: parse_period_def)
  have f: "\<forall>i. parse_period (PInt i) = Inl ValueError"
    by (simp add: parse_period_def)
  note g = parse_period_accepts
  note h = baseline_dt_accepts [OF assms(5) assms(6)]
  have i: "baseline_dt (ty, tm) (PInt 2019) = Inr (2019, tm)"
    by (simp add: h example_bare_years)
  have j: "baseline_dt (ty, tm) (PStr ''19_4'') = Inr (194, tm)"
    by (simp add: h example_bare_years)
  from a b c d e f g h i j show ?thesis by blast
qed

theorem period_round_trip_witness:
  "parse_period (PStr ''2019_04'') = Inr (2019, 4)
   \<and> parse_period (PStr ''2019-04'') = Inr (2019, 4)
   \<and> parse_period (PDate 2019 4) = Inr (2019, 4)
   \<and> baseline_dt (2021, 4) (PStr ''2019'') = Inr (2019, 4)
   \<and> parse_period (PStr ''2019'') = Inl ValueError
   \<and> parse_period (PInt 2019) = Inl ValueError
   \<and> baseline_dt (2021, 4) (PInt 2019) = Inr (2019, 4)
   \<and> baseline_dt (2021, 4) (PStr ''19_4'') = Inr (194, 4)"
proof -
  have f1: "format_sep CHR ''_'' 2019 4 = ''2019_04''" by code_simp
  have f2: "format_sep CHR ''-'' 2019 4 = ''2019-04''" by code_simp
  have f3: "format_year 2019 = ''2019''" by code_simp
  have h: "(1::int) \<le> 2019" "(2019::int) \<le> 9999" "(1::int) \<le> 4" "(4::int) \<le> 12"
    by simp_all
  note t = period_round_trip [OF h h(3) h(4), of 2021]
  have n: "CHR ''_'' \<notin> set ''2019'' \<and> CHR ''-'' \<notin> set ''2019''" by simp
  from t n show ?thesis unfolding f1 f2 f3 by blast
qed

text \<open>
  The claim as stated fails: \<open>2021_4\<close> is of none of the three textual forms, and
  resolves to (2021, 4) instead of failing; in the baseline loop \<open>19_4\<close> is of
  none of the forms either, and resolves to the year 194 with the target's month.
\<close>

theorem period_lenient_counterexample:
  "\<not> is_YYYY_MM CHR ''_'' ''2021_4'' \<and> \<not> is_YYYY_MM CHR ''-'' ''2021_4''
   \<and> \<not> is_YYYY ''2021_4''
   \<and> parse_period (PStr ''2021_4'') = Inr (2021, 4)
   \<and> \<not> is_YYYY_MM CHR ''_'' ''19_4'' \<and> \<not> is_YYYY_MM CHR ''-'' ''19_4''
   \<and> \<not> is_YYYY ''19_4''
   \<and> baseline_dt (2021, 4) (PStr ''19_4'') = Inr (194, 4)"
  by code_simp

section \<open>Proofs: zonal mean, monthly lookup and daily series\<close>

lemma extract_loop_map_filter:
  "extract_loop body days acc = acc @ List.map_filter body days"
  by (induction days arbitrary: acc) (simp_all add: map_filter_simps split: option.splits)

lemma length_map_filter_le:
  "(\<And>x. f x \<noteq> None \<Longrightarrow> P x) \<Longrightarrow> length (List.map_filter f xs) \<le> length (filter P xs)"
proof (induction xs)
  case Nil
  show ?case by (simp add: map_filter_simps)
next
  case (Cons x xs)
  then have ih: "length (List.map_filter f xs) \<le> length (filter P xs)" by blast
  show ?case
  proof (cases "f x")
    case None
    with ih show ?thesis by (simp add: map_filter_simps)
  next
    case (Some v)
    then have "P x" using Cons.prems by simp
    with Some ih show ?thesis by (simp add: map_filter_simps)
  qed
qed

lemma map_filter_all_None:
  "(\<And>x. x \<in> set xs \<Longrightarrow> f x = None) \<Longrightarrow> List.map_filter f xs = []"
  by (induction xs) (simp_all add: map_filter_simps)

lemma daily_value_Some:
  assumes "daily_value zs poly file = Some v"
  shows "\<not> is_nan v \<and> (\<exists>src rest. file = Raster src
           \<and> zs poly (data src) (nodata src) = Inr (Some (Feature (Some v) # rest)))"
  using assms
  by (auto simp: daily_value_def
      split: raster_file.splits sum.splits option.splits list.splits feature.splits if_splits)

lemma daily_value_iff:
  "daily_value zs poly file = Some v \<longleftrightarrow>
     (\<exists>src rest. file = Raster src
        \<and> zs poly (data src) (nodata src) = Inr (Some (Feature (Some v) # rest))
        \<and> \<not> is_nan v)"
proof
  assume "daily_value zs poly file = Some v"
  from daily_value_Some [OF this]
  show "\<exists>src rest. file = Raster src
        \<and> zs poly (data src) (nodata src) = Inr (Some (Feature (Some v) # rest))
        \<and> \<not> is_nan v"
    by blast
next
  assume "\<exists>src rest. file = Raster src
        \<and> zs poly (data src) (nodata src) = Inr (Some (Feature (Some v) # rest))
        \<and> \<not> is_nan v"
  then show "daily_value zs poly file = Some v"
    by (auto simp: daily_value_def)
qed

lemma set_map_filter:
  "z \<in> set (List.map_filter f xs) \<longleftrightarrow> (\<exists>x \<in> set xs. f x = Some z)"
  by (induction xs) (auto simp: map_filter_simps split: option.splits)

lemma length_map_filter:
  "length (List.map_filter f xs) = length (filter (\<lambda>x. f x \<noteq> None) xs)"
  by (simp add: List.map_filter_def)

text \<open>
  C6 (as amended). The daily-series extraction returns the ordered list of the
  defined per-day zonal means of the days 1..N of the month. A day yields a value
  exactly when its file is a readable raster and the zonal statistics return for it
  a mean that is neither \<open>None\<close> nor NaN, and the value is that mean; so a day whose
  file is absent or unreadable is skipped, a day whose mean is undefined is skipped,
  and every day with a defined mean is in the result. The list has one entry per day
  with a defined mean: it is never longer than the number of files present (nor than
  N). When no day yields a defined mean the result is \<open>None\<close>, never the empty list.
\<close>

theorem extract_daily_series:
  "extract_daily_no2_for_month zs folder poly (y, m) =
     (let vals = List.map_filter (\<lambda>day. daily_value zs poly (folder (y, m, day)))
                   [1 ..< monthrange y m + 1]
      in if vals = [] then None else Some vals)
   \<and> (\<forall>file v. daily_value zs poly file = Some v \<longleftrightarrow>
         (\<exists>src rest. file = Raster src
            \<and> zs poly (data src) (nodata src) = Inr (Some (Feature (Some v) # rest))
            \<and> \<not> is_nan v))
   \<and> daily_value zs poly Missing = None
   \<and> daily_value zs poly Unreadable = None
   \<and> (\<forall>day src rest v.
         1 \<le> day \<and> day \<le> monthrange y m \<and> folder (y, m, day) = Raster src
         \<and> zs poly (data src) (nodata src) = Inr (Some (Feature (Some v) # rest))
         \<and> \<not> is_nan v \<longrightarrow>
         (\<exists>vals. extract_daily_no2_for_month zs folder poly (y, m) = Some vals
            \<and> v \<in> set vals))
   \<and> (\<forall>vals. extract_daily_no2_for_month zs folder poly (y, m) = Some vals \<longrightarrow>
         vals \<noteq> []
         \<and> (\<forall>v \<in> set vals. \<exists>day. 1 \<le> day \<and> day \<le> monthrange y m
                \<and> daily_value zs poly (folder (y, m, day)) = Some v)
         \<and> length vals
             = length (filter (\<lambda>day. daily_value zs poly (folder (y, m, day)) \<noteq> None)
                         [1 ..< monthrange y m + 1])
         \<and> length vals \<le> length (filter (\<lambda>day. folder (y, m, day) \<noteq> Missing)
                                   [1 ..< monthrange y m + 1])
         \<and> length vals \<le> monthrange y m)"
proof -
  let ?f = "\<lambda>day. daily_value zs poly (folder (y, m, day))"
  let ?days = "[1 ..< monthrange y m + 1]"
  have a: "extract_daily_no2_for_month zs folder poly (y, m) =
     (let vals = List.map_filter ?f ?days in if vals = [] then None else Some vals)"
    by (simp add: extract_daily_no2_for_month_def extract_loop_map_filter Let_def)
  have b: "daily_value zs poly Missing = None" "daily_value zs poly Unreadable = None"
    by (simp_all add: daily_value_def)
  have days: "day \<in> set ?days \<longleftrightarrow> 1 \<le> day \<and> day \<le> monthrange y m" for day
    by (simp only: set_upt atLeastLessThan_iff) auto
  have p: "folder (y, m, day) \<noteq> Missing" if "?f day \<noteq> None" for day
    using that b(1) by (cases "folder (y, m, day)") auto
  have l1: "length (List.map_filter ?f ?days)
      \<le> length (filter (\<lambda>day. folder (y, m, day) \<noteq> Missing) ?days)"
    by (rule length_map_filter_le) (rule p)
  have l0: "length (filter (\<lambda>day. folder (y, m, day) \<noteq> Missing) ?days) \<le> length ?days"
    by (rule length_filter_le)
  have len: "length ?days = monthrange y m" by simp
  from l1 l0 len have l2: "length (List.map_filter ?f ?days) \<le> monthrange y m"
    by linarith
  have l3: "length (List.map_filter ?f ?days) = length (filter (\<lambda>day. ?f day \<noteq> None) ?days)"
    by (rule length_map_filter)
  have k: "\<exists>vals. extract_daily_no2_for_month zs folder poly (y, m) = Some vals \<and> v \<in> set vals"
    if d: "1 \<le> day" "day \<le> monthrange y m" and r: "folder (y, m, day) = Raster src"
       "zs poly (data src) (nodata src) = Inr (Some (Feature (Some v) # rest))" "\<not> is_nan v"
    for day src rest v
  proof -
    from r have fd: "?f day = Some v" by (simp only: daily_value_iff) blast
    from d have "day \<in> set ?days" by (simp only: days)
    with fd have "\<exists>x \<in> set ?days. ?f x = Some v" by (rule_tac bexI)
    then have v: "v \<in> set (List.map_filter ?f ?days)"
      by (simp only: set_map_filter)
    then have "List.map_filter ?f ?days \<noteq> []" by (metis empty_iff list.set(1))
    with a have "extract_daily_no2_for_month zs folder poly (y, m)
        = Some (List.map_filter ?f ?days)"
      by (simp only: Let_def if_False)
    with v show ?thesis by blast
  qed
  have c: "vals \<noteq> []
         \<and> (\<forall>v \<in> set vals. \<exists>day. 1 \<le> day \<and> day \<le> monthrange y m \<and> ?f day = Some v)
         \<and> length vals = length (filter (\<lambda>day. ?f day \<noteq> None) ?days)
         \<and> length vals \<le> length (filter (\<lambda>day. folder (y, m, day) \<noteq> Missing) ?days)
         \<and> length vals \<le> monthrange y m"
    if "extract_daily_no2_for_month zs folder poly (y, m) = Some vals" for vals
  proof -
    from that a have v: "vals = List.map_filter ?f ?days" and ne: "vals \<noteq> []"
      by (auto simp only: Let_def split: if_splits)
    have w: "\<forall>w \<in> set vals. \<exists>day. 1 \<le> day \<and> day \<le> monthrange y m \<and> ?f day = Some w"
    proof
      fix w assume "w \<in> set vals"
      then have "\<exists>day \<in> set ?days. ?f day = Some w"
        by (simp only: v set_map_filter)
      then obtain day where "day \<in> set ?days" and fd: "?f day = Some w" ..
      then have "1 \<le> day \<and> day \<le> monthrange y m" by (simp only: days)
      with fd show "\<exists>day. 1 \<le> day \<and> day \<le> monthrange y m \<and> ?f day = Some w"
        by (intro exI [of _ day] conjI) simp_all
    qed
    from l1 l2 l3 have "length vals = length (filter (\<lambda>day. ?f day \<noteq> None) ?days)"
      "length vals \<le> length (filter (\<lambda>day. folder (y, m, day) \<noteq> Missing) ?days)"
      "length vals \<le> monthrange y m"
      by (simp_all only: v)
    with ne w show ?thesis by (intro conjI)
  qed
  have i': "\<forall>file v. daily_value zs poly file = Some v \<longleftrightarrow>
         (\<exists>src rest. file = Raster src
            \<and> zs poly (data src) (nodata src) = Inr (Some (Feature (Some v) # rest))
            \<and> \<not> is_nan v)"
    by (intro allI) (rule daily_value_iff)
  have k': "\<forall>day src rest v.
         1 \<le> day \<and> day \<le> monthrange y m \<and> folder (y, m, day) = Raster src
         \<and> zs poly (data src) (nodata src) = Inr (Some (Feature (Some v) # rest))
         \<and> \<not> is_nan v \<longrightarrow>
         (\<exists>vals. extract_daily_no2_for_month zs folder poly (y, m) = Some vals
            \<and> v \<in> set vals)"
  proof (intro allI impI)
    fix day src rest v
    assume h: "1 \<le> day \<and> day \<le> monthrange y m \<and> folder (y, m, day) = Raster src
         \<and> zs poly (data src) (nodata src) = Inr (Some (Feature (Some v) # rest))
         \<and> \<not> is_nan v"
    then have "1 \<le> day" "day \<le> monthrange y m" "folder (y, m, day) = Raster src"
      "zs poly (data src) (nodata src) = Inr (Some (Feature (Some v) # rest))" "\<not> is_nan v"
      by simp_all
    then show "\<exists>vals. extract_daily_no2_for_month zs folder poly (y, m) = Some vals
            \<and> v \<in> set vals"
      by (rule k)
  qed
  have c': "\<forall>vals. extract_daily_no2_for_month zs folder poly (y, m) = Some vals \<longrightarrow>
         vals \<noteq> []
         \<and> (\<forall>v \<in> set vals. \<exists>day. 1 \<le> day \<and> day \<le> monthrange y m \<and> ?f day = Some v)
         \<and> length vals = length (filter (\<lambda>day. ?f day \<noteq> None) ?days)
         \<and> length vals \<le> length (filter (\<lambda>day. folder (y, m, day) \<noteq> Missing) ?days)
         \<and> length vals \<le> monthrange y m"
    by (intro allI impI) (rule c)
  from a i' b(1) b(2) k' c' show ?thesis by (intro conjI)
qed

theorem extract_daily_series_witness:
  "extract_daily_no2_for_month zonal_stats
     (\<lambda>(y, m, day).
        if day = 1 then Raster \<lparr>data = [Fin 10, Fin 20], nodata = Some (Fin (- 9999))\<rparr>
        else if day = 2 then Raster \<lparr>data = [Fin (- 9999), NaN], nodata = Some (Fin (- 9999))\<rparr>
        else if day = 3 then Unreadable
        else if day = 4 then Raster \<lparr>data = [Fin 2, Fin 4], nodata = Some (Fin (- 9999))\<rparr>
        else Missing)
     [True, True] (2021, 4) = Some [Fin 15, Fin 3]
   \<and> length [Fin 15, Fin 3] \<le> monthrange 2021 4"
proof -
  let ?folder = "\<lambda>(y :: int, m :: int, day :: nat).
        if day = 1 then Raster \<lparr>data = [Fin 10, Fin 20], nodata = Some (Fin (- 9999))\<rparr>
        else if day = 2 then Raster \<lparr>data = [Fin (- 9999), NaN], nodata = Some (Fin (- 9999))\<rparr>
        else if day = 3 then Unreadable
        else if day = 4 then Raster \<lparr>data = [Fin 2, Fin 4], nodata = Some (Fin (- 9999))\<rparr>
        else Missing"
  note t = extract_daily_series [of zonal_stats ?folder "[True, True]" 2021 4]
  have d1: "daily_value zonal_stats [True, True] (?folder (2021, 4, 1)) = Some (Fin 15)"
    by (simp add: daily_value_def zonal_stats_def np_mean_def np_sum_def)
  have d2: "daily_value zonal_stats [True, True] (?folder (2021, 4, 2)) = None"
    by (simp add: daily_value_def zonal_stats_def)
  have d3: "daily_value zonal_stats [True, True] (?folder (2021, 4, 3)) = None"
    by (simp add: daily_value_def)
  have d4: "daily_value zonal_stats [True, True] (?folder (2021, 4, 4)) = Some (Fin 3)"
    by (simp add: daily_value_def zonal_stats_def np_mean_def np_sum_def)
  have d5: "daily_value zonal_stats [True, True] (?folder (2021, 4, day)) = None"
    if "5 \<le> day" for day
    using that by (simp add: daily_value_def)
  have ds: "[1 ..< monthrange 2021 4 + 1] = 1 # 2 # 3 # 4 # [5 ..< 31]"
    by (simp add: monthrange_def upt_conv_Cons)
  have "List.map_filter (\<lambda>day. daily_value zonal_stats [True, True] (?folder (2021, 4, day)))
          [5 ..< 31] = []"
  proof (rule map_filter_all_None)
    fix x :: nat
    assume "x \<in> set [5 ..< 31]"
    then have "5 \<le> x" by (simp only: set_upt atLeastLessThan_iff)
    then show "daily_value zonal_stats [True, True] (?folder (2021, 4, x)) = None"
      by (rule d5)
  qed
  then have "List.map_filter (\<lambda>day. daily_value zonal_stats [True, True] (?folder (2021, 4, day)))
          [1 ..< monthrange 2021 4 + 1] = [Fin 15, Fin 3]"
    using d1 d2 d3 d4 unfolding ds by (simp add: map_filter_simps)
  with t have e: "extract_daily_no2_for_month zonal_stats ?folder [True, True] (2021, 4)
      = Some [Fin 15, Fin 3]"
    by (simp add: Let_def)
  with t have "length [Fin 15, Fin 3] \<le> monthrange 2021 4" by blast
  with e show ?thesis by blast
qed

text \<open>
  The claim as stated fails: in a month with no daily file the result is \<open>None\<close>,
  not the empty series.
\<close>

theorem extract_daily_series_counterexample:
  "extract_daily_no2_for_month zonal_stats (\<lambda>date. Missing) [True] (2021, 4) = None
   \<and> extract_daily_no2_for_month zonal_stats (\<lambda>date. Missing) [True] (2021, 4) \<noteq> Some []"
proof -
  have "List.map_filter (\<lambda>day :: nat. daily_value zonal_stats [True] Missing) days = []" for days
    by (simp add: List.map_filter_def daily_value_def)
  then show ?thesis
    by (simp add: extract_daily_no2_for_month_def extract_loop_map_filter)
qed

lemma daily_value_all_nodata:
  assumes "\<forall>(v, inside) \<in> set (zip (data src) poly).
             inside \<longrightarrow> is_nan v \<or> (\<exists>nd. nodata src = Some nd \<and> fl_eq v nd)"
  shows "daily_value zonal_stats poly (Raster src) = None"
proof -
  have "filter (\<lambda>(v, inside). inside \<and>
            \<not> fl_eq v (case nodata src of None \<Rightarrow> Fin (- 999) | Some v \<Rightarrow> v) \<and> \<not> is_nan v)
          (zip (data src) poly) = []"
    using assms by (auto simp: filter_empty_conv)
  then show ?thesis
    by (simp add: daily_value_def zonal_stats_def)
qed

text \<open>
  C1 (the code at the failing input). A monthly raster as the aggregation writes it,
  with nodata sentinel -9999 and every cell under the polygon equal to the sentinel:
  the monthly lookup passes no \<open>nodata\<close> to the zonal statistics and returns the
  mean -9999 instead of \<open>None\<close>, where the daily path, which passes
  \<open>nodata=src.nodata\<close>, skips the same raster.
\<close>

theorem monthly_lookup_averages_nodata:
  "calculate_period_no2_coord_polygon zonal_stats
     (\<lambda>ps. if ps = ''2021_04''
            then Raster \<lparr>data = [Fin (- 9999), Fin (- 9999)], nodata = Some (Fin (- 9999))\<rparr>
            else Missing)
     [True, True] (PStr ''2021_04'') = Inr (Some (Fin (- 9999)))
   \<and> daily_value zonal_stats [True, True]
       (Raster \<lparr>data = [Fin (- 9999), Fin (- 9999)], nodata = Some (Fin (- 9999))\<rparr>) = None"
  by (simp add: calculate_period_no2_coord_polygon_def period_str_def daily_value_def
      zonal_stats_def np_mean_def np_sum_def)

text \<open>
  C10. For a string or \<open>datetime\<close> period the monthly lookup never raises. A missing
  file, a file that cannot be read and a zonal statistics call that raises all give
  \<open>None\<close>; the record assembly turns every falsy lookup result into the value 0.0.
  So a missing raster, a failed read, a failed statistics call and a computed mean of
  exactly 0.0 all give the same recorded value 0.0.
\<close>

theorem monthly_lookup_falsy_is_zero:
  "(\<forall>e. calculate_period_no2_coord_polygon zs folder poly (PStr ps) \<noteq> Inl e)
   \<and> (\<forall>e. calculate_period_no2_coord_polygon zs folder poly (PDate y m) \<noteq> Inl e)
   \<and> (folder ps = Missing \<longrightarrow>
        calculate_period_no2_coord_polygon zs folder poly (PStr ps) = Inr None
        \<and> timepoint_value zs folder poly ps = Inr (Fin 0))
   \<and> (folder ps = Unreadable \<longrightarrow>
        calculate_period_no2_coord_polygon zs folder poly (PStr ps) = Inr None
        \<and> timepoint_value zs folder poly ps = Inr (Fin 0))
   \<and> (\<forall>src e. folder ps = Raster src \<and> zs poly (data src) None = Inl e \<longrightarrow>
        calculate_period_no2_coord_polygon zs folder poly (PStr ps) = Inr None
        \<and> timepoint_value zs folder poly ps = Inr (Fin 0))
   \<and> (\<forall>src rest. folder ps = Raster src
          \<and> zs poly (data src) None = Inr (Some (Feature (Some (Fin 0)) # rest)) \<longrightarrow>
        calculate_period_no2_coord_polygon zs folder poly (PStr ps) = Inr (Some (Fin 0))
        \<and> timepoint_value zs folder poly ps = Inr (Fin 0))
   \<and> (\<forall>v. calculate_period_no2_coord_polygon zs folder poly (PStr ps) = Inr v
          \<and> \<not> truthy v \<longrightarrow> timepoint_value zs folder poly ps = Inr (Fin 0))"
proof -
  have a: "calculate_period_no2_coord_polygon zs folder poly (PStr ps) \<noteq> Inl e" for e
    by (simp add: calculate_period_no2_coord_polygon_def period_str_def
        split: raster_file.splits sum.splits option.splits list.splits feature.splits)
  have b: "calculate_period_no2_coord_polygon zs folder poly (PDate y m) \<noteq> Inl e" for e
    by (simp add: calculate_period_no2_coord_polygon_def period_str_def
        split: raster_file.splits sum.splits option.splits list.splits feature.splits)
  have c: "calculate_period_no2_coord_polygon zs folder poly (PStr ps) = Inr None"
    if "folder ps = Missing \<or> folder ps = Unreadable
        \<or> (\<exists>src e. folder ps = Raster src \<and> zs poly (data src) None = Inl e)"
    using that by (auto simp: calculate_period_no2_coord_polygon_def period_str_def)
  have d: "calculate_period_no2_coord_polygon zs folder poly (PStr ps) = Inr (Some (Fin 0))"
    if "folder ps = Raster src"
       "zs poly (data src) None = Inr (Some (Feature (Some (Fin 0)) # rest))" for src rest
    using that by (simp add: calculate_period_no2_coord_polygon_def period_str_def)
  have f: "timepoint_value zs folder poly ps = Inr (Fin 0)"
    if "calculate_period_no2_coord_polygon zs folder poly (PStr ps) = Inr v" "\<not> truthy v" for v
    using that by (auto simp: timepoint_value_def truthy_def split: option.splits)
  have t: "\<not> truthy None" "\<not> truthy (Some (Fin 0))"
    by (simp_all add: truthy_def)
  from a b c d f t show ?thesis by blast
qed

theorem monthly_lookup_falsy_is_zero_witness:
  "timepoint_value zonal_stats (\<lambda>ps. Missing) [True] ''2021_04'' = Inr (Fin 0)
   \<and> timepoint_value zonal_stats (\<lambda>ps. Unreadable) [True] ''2021_04'' = Inr (Fin 0)
   \<and> timepoint_value (\<lambda>poly arr nd. Inl ValueError)
        (\<lambda>ps. Raster \<lparr>data = [Fin 5], nodata = None\<rparr>) [True] ''2021_04'' = Inr (Fin 0)
   \<and> timepoint_value zonal_stats
        (\<lambda>ps. Raster \<lparr>data = [Fin 0, Fin 0], nodata = None\<rparr>) [True, True] ''2021_04''
      = Inr (Fin 0)"
proof -
  have 1: "timepoint_value zonal_stats (\<lambda>ps. Missing) [True] ''2021_04'' = Inr (Fin 0)"
    using monthly_lookup_falsy_is_zero [of zonal_stats "\<lambda>ps. Missing" "[True]" "''2021_04''"]
    by blast
  have 2: "timepoint_value zonal_stats (\<lambda>ps. Unreadable) [True] ''2021_04'' = Inr (Fin 0)"
    using monthly_lookup_falsy_is_zero [of zonal_stats "\<lambda>ps. Unreadable" "[True]" "''2021_04''"]
    by blast
  have 3: "timepoint_value (\<lambda>poly arr nd. Inl ValueError)
        (\<lambda>ps. Raster \<lparr>data = [Fin 5], nodata = None\<rparr>) [True] ''2021_04'' = Inr (Fin 0)"
    using monthly_lookup_falsy_is_zero [of "\<lambda>poly arr nd. Inl ValueError"
        "\<lambda>ps. Raster \<lparr>data = [Fin 5], nodata = None\<rparr>" "[True]" "''2021_04''"]
    by blast
  have z: "zonal_stats [True, True] (data \<lparr>data = [Fin 0, Fin 0], nodata = None\<rparr>) None
      = Inr (Some (Feature (Some (Fin 0)) # []))"
    by (simp add: zonal_stats_def np_mean_def np_sum_def)
  have 4: "timepoint_value zonal_stats
        (\<lambda>ps. Raster \<lparr>data = [Fin 0, Fin 0], nodata = None\<rparr>) [True, True] ''2021_04''
      = Inr (Fin 0)"
    using z monthly_lookup_falsy_is_zero [of zonal_stats
        "\<lambda>ps. Raster \<lparr>data = [Fin 0, Fin 0], nodata = None\<rparr>" "[True, True]" "''2021_04''"]
    by blast
  from 1 2 3 4 show ?thesis by blast
qed

section \<open>Proofs: statistics on finite samples\<close>

lemma foldl_fl_add_Fin: "foldl fl_add (Fin a) (map Fin xs) = Fin (a + sum_list xs)"
  by (induction xs arbitrary: a) (simp_all add: add.assoc)

lemma np_sum_Fin: "np_sum (map Fin xs) = Fin (sum_list xs)"
  by (simp add: np_sum_def foldl_fl_add_Fin)

lemma np_mean_Fin: "xs \<noteq> [] \<Longrightarrow> np_mean (map Fin xs) = Fin (mean xs)"
  by (simp add: np_mean_def np_sum_Fin mean_def)

lemma np_var_Fin:
  assumes "2 \<le> length xs"
  shows "np_var (map Fin xs) = Fin (sample_var xs)"
proof -
  from assms have ne: "xs \<noteq> []" by auto
  have m: "map (\<lambda>x. fl_mul (fl_sub x (Fin (mean xs))) (fl_sub x (Fin (mean xs)))) (map Fin xs)
      = map Fin (map (\<lambda>x. (x - mean xs)\<^sup>2) xs)"
    by (simp add: fl_sub_def power2_eq_square)
  have n: "real (length xs - 1) = real (length xs) - 1" "real (length xs) - 1 \<noteq> 0"
    using assms by (simp_all add: of_nat_diff)
  show ?thesis
    unfolding np_var_def Let_def np_mean_Fin [OF ne] m np_sum_Fin
    using n by (simp add: sample_var_def)
qed

lemma sample_var_nonneg: "2 \<le> length xs \<Longrightarrow> 0 \<le> sample_var xs"
proof -
  assume a: "2 \<le> length xs"
  have "0 \<le> (\<Sum>x\<leftarrow>xs. (x - mean xs)\<^sup>2)"
    by (rule sum_list_nonneg) auto
  moreover have "0 < real (length xs) - 1" using a by simp
  ultimately show ?thesis by (simp add: sample_var_def)
qed

lemma np_std_Fin: "2 \<le> length xs \<Longrightarrow> np_std (map Fin xs) = Fin (sqrt (sample_var xs))"
  using sample_var_nonneg [of xs] by (simp add: np_std_def np_var_Fin)

lemma pooled_var_nonneg:
  assumes "2 \<le> length xs" "2 \<le> length ys"
  shows "0 \<le> pooled_var xs ys"
proof -
  have "0 \<le> (real (length xs) - 1) * sample_var xs"
    using assms sample_var_nonneg [of xs] by simp
  moreover have "0 \<le> (real (length ys) - 1) * sample_var ys"
    using assms sample_var_nonneg [of ys] by simp
  moreover have "0 < real (length xs) + real (length ys) - 2"
    using assms by simp
  ultimately show ?thesis by (simp add: pooled_var_def)
qed


lemma pooled_var_zero_iff:
  assumes "2 \<le> length xs" "2 \<le> length ys"
  shows "pooled_var xs ys = 0 \<longleftrightarrow> sample_var xs = 0 \<and> sample_var ys = 0"
proof -
  have a: "0 \<le> (real (length xs) - 1) * sample_var xs"
    using assms sample_var_nonneg [of xs] by simp
  have b: "0 \<le> (real (length ys) - 1) * sample_var ys"
    using assms sample_var_nonneg [of ys] by simp
  have c: "real (length xs) + real (length ys) - 2 \<noteq> 0" using assms by simp
  have "pooled_var xs ys = 0 \<longleftrightarrow>
      (real (length xs) - 1) * sample_var xs + (real (length ys) - 1) * sample_var ys = 0"
    using c by (simp add: pooled_var_def)
  also have "\<dots> \<longleftrightarrow> (real (length xs) - 1) * sample_var xs = 0
      \<and> (real (length ys) - 1) * sample_var ys = 0"
    using a b by (rule add_nonneg_eq_0_iff)
  also have "\<dots> \<longleftrightarrow> sample_var xs = 0 \<and> sample_var ys = 0"
    using assms by simp
  finally show ?thesis .
qed

lemma ttest_ind_Fin:
  assumes "2 \<le> length a" "2 \<le> length b"
  shows "ttest_ind stdtr (map Fin a) (map Fin b) =
     (student_t_fl a b,
      ttest_finish stdtr (real (length a) + real (length b) - 2) (student_t_fl a b))"
proof -
  from assms have ne: "a \<noteq> []" "b \<noteq> []" by auto
  have df: "real (length a) + real (length b) - 2 \<noteq> 0" using assms by simp
  have svar: "fl_div (fl_add (fl_mul (Fin (real (length a) - 1)) (Fin (sample_var a)))
                             (fl_mul (Fin (real (length b) - 1)) (Fin (sample_var b))))
                     (Fin (real (length a) + real (length b) - 2))
      = Fin (pooled_var a b)"
    using df by (simp add: pooled_var_def)
  have nn: "\<not> pooled_var a b * (1 / real (length a) + 1 / real (length b)) < 0"
    using pooled_var_nonneg [OF assms] by (simp add: not_less)
  have denom: "fl_sqrt (fl_mul (Fin (pooled_var a b))
                               (Fin (1 / real (length a) + 1 / real (length b))))
      = Fin (sqrt (pooled_var a b * (1 / real (length a) + 1 / real (length b))))"
    using nn by (simp only: fl_mul.simps fl_sqrt.simps if_False)
  have num: "fl_sub (Fin (mean a)) (Fin (mean b)) = Fin (mean a - mean b)"
    by (simp add: fl_sub_def)
  show ?thesis
    by (simp only: ttest_ind_def Let_def length_map np_var_Fin [OF assms(1)]
        np_var_Fin [OF assms(2)] np_mean_Fin [OF ne(1)] np_mean_Fin [OF ne(2)]
        svar denom num student_t_fl_def)
qed

lemma pooled_std_Fin:
  assumes "2 \<le> length ts" "2 \<le> length bs"
  shows "fl_sqrt
       (fl_div
          (fl_add (fl_mul (Fin (real (length bs) - 1))
                     (fl_mul (Fin (sqrt (sample_var bs))) (Fin (sqrt (sample_var bs)))))
                  (fl_mul (Fin (real (length ts) - 1))
                     (fl_mul (Fin (sqrt (sample_var ts))) (Fin (sqrt (sample_var ts))))))
          (Fin (real (length bs) + real (length ts) - 2)))
      = Fin (sqrt (pooled_var bs ts))"
proof -
  have df: "real (length bs) + real (length ts) - 2 \<noteq> 0" using assms by simp
  have sqb: "fl_mul (Fin (sqrt (sample_var bs))) (Fin (sqrt (sample_var bs)))
      = Fin (sample_var bs)"
    using sample_var_nonneg [OF assms(2)] by simp
  have sqt: "fl_mul (Fin (sqrt (sample_var ts))) (Fin (sqrt (sample_var ts)))
      = Fin (sample_var ts)"
    using sample_var_nonneg [OF assms(1)] by simp
  have a: "fl_div (fl_add (fl_mul (Fin (real (length bs) - 1)) (Fin (sample_var bs)))
                          (fl_mul (Fin (real (length ts) - 1)) (Fin (sample_var ts))))
                  (Fin (real (length bs) + real (length ts) - 2))
      = Fin (pooled_var bs ts)"
    using df by (simp add: pooled_var_def)
  have b: "fl_sqrt (Fin (pooled_var bs ts)) = Fin (sqrt (pooled_var bs ts))"
    using pooled_var_nonneg [OF assms(2) assms(1)] by simp
  show ?thesis by (simp only: sqb sqt a b)
qed

lemma significance_test_Fin:
  assumes "3 \<le> length ts" "3 \<le> length bs"
  shows "significance_test stdtr alpha tdt dts (map Fin ts) (map Fin bs) =
     (let t = student_t_fl bs ts;
          p = ttest_finish stdtr (real (length bs) + real (length ts) - 2) t;
          d = (if 0 < pooled_var bs ts
               then Fin ((mean ts - mean bs) / sqrt (pooled_var bs ts)) else Fin 0);
          pct = (if mean bs \<noteq> 0 then Fin ((mean ts - mean bs) / mean bs * 100) else Fin 0)
      in \<lparr>significant = fl_lt p alpha,
          p_value = p,
          interpretation_text = generate_interpretation (fl_lt p alpha) p pct d,
          details = Some
            \<lparr>t_statistic = t, target_mean = Fin (mean ts), baseline_mean = Fin (mean bs),
             target_std = Fin (sqrt (sample_var ts)), baseline_std = Fin (sqrt (sample_var bs)),
             percent_change = pct, cohens_d = d,
             n_target = length ts, n_baseline = length bs,
             target_period = tdt, baseline_period = dts\<rparr>\<rparr>)"
proof -
  from assms have l2: "2 \<le> length ts" "2 \<le> length bs" by auto
  then have ne: "ts \<noteq> []" "bs \<noteq> []" by auto
  have num: "fl_sub (Fin (mean ts)) (Fin (mean bs)) = Fin (mean ts - mean bs)"
    by (simp add: fl_sub_def)
  have d: "(if fl_lt (Fin 0) (Fin (sqrt (pooled_var bs ts)))
            then fl_div (Fin (mean ts - mean bs)) (Fin (sqrt (pooled_var bs ts))) else Fin 0)
      = (if 0 < pooled_var bs ts
         then Fin ((mean ts - mean bs) / sqrt (pooled_var bs ts)) else Fin 0)"
    by simp
  have pct: "(if \<not> fl_eq (Fin (mean bs)) (Fin 0)
              then fl_mul (fl_div (Fin (mean ts - mean bs)) (Fin (mean bs))) (Fin 100)
              else Fin 0)
      = (if mean bs \<noteq> 0 then Fin ((mean ts - mean bs) / mean bs * 100) else Fin 0)"
    by simp
  show ?thesis
    by (simp only: significance_test_def ttest_ind_Fin [OF l2(2) l2(1)] length_map
        np_mean_Fin [OF ne(1)] np_mean_Fin [OF ne(2)]
        np_std_Fin [OF l2(1)] np_std_Fin [OF l2(2)] pooled_std_Fin [OF l2]
        num d pct Let_def prod.case)
qed

section \<open>Proofs: the significance test\<close>

lemma calculate_unfold:
  assumes "parse_period target = Inr tdt"
      and "baseline_loop zs folder poly tdt (baseline_periods baseline) [] [] = Inr (ball, dts)"
  shows "calculate_no2_significance stdtr zs folder poly target baseline alpha =
     (case extract_daily_no2_for_month zs folder poly tdt of
        None \<Rightarrow> Inr insufficient
      | Some td \<Rightarrow>
          if length ball < 3 \<or> length td < 3 then Inr insufficient
          else Inr (significance_test stdtr alpha tdt dts td ball))"
  using assms by (simp add: calculate_no2_significance_def)

lemma baseline_loop_single:
  assumes "baseline_dt tdt p = Inr bdt"
      and "extract_daily_no2_for_month zs folder poly bdt = Some bs"
  shows "baseline_loop zs folder poly tdt (baseline_periods (One p)) [] [] = Inr (bs, [bdt])"
  using assms by (simp add: baseline_periods_def)

lemma map_filter_prefix:
  assumes some: "\<And>d. 1 \<le> d \<Longrightarrow> d \<le> length xs \<Longrightarrow> f d = Some (g (xs ! (d - 1)))"
      and none: "\<And>d. length xs < d \<Longrightarrow> f d = None"
      and le: "length xs \<le> n"
  shows "List.map_filter f [1 ..< n + 1] = map g xs"
proof -
  let ?k = "length xs"
  have sp: "[1 ..< n + 1] = [1 ..< ?k + 1] @ [?k + 1 ..< n + 1]"
  proof -
    have "?k + 1 + (n - ?k) = n + 1" using le by simp
    with upt_add_eq_append [of 1 "?k + 1" "n - ?k"] show ?thesis by (simp del: upt_Suc)
  qed
  have t: "List.map_filter f [?k + 1 ..< n + 1] = []"
  proof (rule map_filter_all_None)
    fix x assume "x \<in> set [?k + 1 ..< n + 1]"
    then have "?k < x" by (simp only: set_upt atLeastLessThan_iff) simp
    then show "f x = None" by (rule none)
  qed
  have fl: "filter (\<lambda>x. f x \<noteq> None) [1 ..< ?k + 1] = [1 ..< ?k + 1]"
  proof (rule filter_True)
    show "\<forall>x \<in> set [1 ..< ?k + 1]. f x \<noteq> None"
    proof
      fix x assume "x \<in> set [1 ..< ?k + 1]"
      then have "1 \<le> x \<and> x \<le> ?k" by (simp only: set_upt atLeastLessThan_iff) simp
      then show "f x \<noteq> None" using some by simp
    qed
  qed
  have h: "map (the \<circ> f) [1 ..< ?k + 1] = map g xs"
  proof (rule nth_equalityI)
    show "length (map (the \<circ> f) [1 ..< ?k + 1]) = length (map g xs)"
      by (simp only: length_map length_upt add_diff_cancel_right')
  next
    fix i assume "i < length (map (the \<circ> f) [1 ..< ?k + 1])"
    then have i: "i < ?k"
      by (simp only: length_map length_upt add_diff_cancel_right')
    then have "[1 ..< ?k + 1] ! i = 1 + i" by (simp del: upt_Suc)
    moreover have "f (1 + i) = Some (g (xs ! i))" using some [of "1 + i"] i by simp
    ultimately show "map (the \<circ> f) [1 ..< ?k + 1] ! i = map g xs ! i"
      using i by (simp del: upt_Suc)
  qed
  have "List.map_filter f [1 ..< ?k + 1] = map g xs"
    by (simp only: List.map_filter_def fl h)
  with t show ?thesis
    unfolding sp by (simp add: List.map_filter_def)
qed

lemma daily_value_one_cell:
  "v \<noteq> - 999 \<Longrightarrow>
   daily_value zonal_stats [True] (Raster \<lparr>data = [Fin v], nodata = None\<rparr>) = Some (Fin v)"
  by (simp add: daily_value_def zonal_stats_def np_mean_def np_sum_def)

lemma extract_series_folder:
  assumes "length (series (y, m)) \<le> monthrange y m"
      and "- 999 \<notin> set (series (y, m))"
  shows "extract_daily_no2_for_month zonal_stats (series_folder series) [True] (y, m) =
     (if series (y, m) = [] then None else Some (map Fin (series (y, m))))"
proof -
  let ?xs = "series (y, m)"
  let ?f = "\<lambda>day. daily_value zonal_stats [True] (series_folder series (y, m, day))"
  have some: "?f d = Some (Fin (?xs ! (d - 1)))" if "1 \<le> d" "d \<le> length ?xs" for d
  proof -
    from that have "?xs ! (d - 1) \<in> set ?xs" by simp
    with assms(2) have "?xs ! (d - 1) \<noteq> - 999" by metis
    then show ?thesis using that by (simp add: series_folder_def daily_value_one_cell)
  qed
  have none: "?f d = None" if "length ?xs < d" for d
    using that by (simp add: series_folder_def daily_value_def)
  have "List.map_filter ?f [1 ..< monthrange y m + 1] = map Fin ?xs"
    using some none assms(1) by (rule map_filter_prefix)
  then show ?thesis
    by (simp add: extract_daily_no2_for_month_def extract_loop_map_filter del: upt_Suc)
qed

lemma example_periods:
  "parse_period (PStr ''2021_04'') = Inr (2021, 4)"
  "parse_period (PStr ''2019_04'') = Inr (2019, 4)"
  "baseline_dt (2021, 4) (PStr ''2019_04'') = Inr (2019, 4)"
  "baseline_dt (2019, 4) (PStr ''2021_04'') = Inr (2021, 4)"
  by code_simp+

lemma example_series:
  assumes "length ts \<le> 30" "length bs \<le> 30" "ts \<noteq> []" "bs \<noteq> []"
      and "- 999 \<notin> set ts" "- 999 \<notin> set bs"
  shows "extract_daily_no2_for_month zonal_stats (series_folder (two_month_series ts bs)) [True]
           (2021, 4) = Some (map Fin ts)"
    and "extract_daily_no2_for_month zonal_stats (series_folder (two_month_series ts bs)) [True]
           (2019, 4) = Some (map Fin bs)"
    and "baseline_loop zonal_stats (series_folder (two_month_series ts bs)) [True] (2021, 4)
           (baseline_periods (One (PStr ''2019_04''))) [] [] = Inr (map Fin bs, [(2019, 4)])"
    and "baseline_loop zonal_stats (series_folder (two_month_series ts bs)) [True] (2019, 4)
           (baseline_periods (One (PStr ''2021_04''))) [] [] = Inr (map Fin ts, [(2021, 4)])"
proof -
  have mr: "monthrange 2021 4 = 30" "monthrange 2019 4 = 30"
    by (simp_all add: monthrange_def)
  have s: "two_month_series ts bs (2021, 4) = ts" "two_month_series ts bs (2019, 4) = bs"
    by (simp_all add: two_month_series_def)
  show a: "extract_daily_no2_for_month zonal_stats (series_folder (two_month_series ts bs)) [True]
           (2021, 4) = Some (map Fin ts)"
    using assms extract_series_folder [of "two_month_series ts bs" 2021 4]
    by (simp only: s mr) simp
  show b: "extract_daily_no2_for_month zonal_stats (series_folder (two_month_series ts bs)) [True]
           (2019, 4) = Some (map Fin bs)"
    using assms extract_series_folder [of "two_month_series ts bs" 2019 4]
    by (simp only: s mr) simp
  show "baseline_loop zonal_stats (series_folder (two_month_series ts bs)) [True] (2021, 4)
           (baseline_periods (One (PStr ''2019_04''))) [] [] = Inr (map Fin bs, [(2019, 4)])"
    using example_periods(3) b by (rule baseline_loop_single)
  show "baseline_loop zonal_stats (series_folder (two_month_series ts bs)) [True] (2019, 4)
           (baseline_periods (One (PStr ''2021_04''))) [] [] = Inr (map Fin ts, [(2021, 4)])"
    using example_periods(4) a by (rule baseline_loop_single)
qed

text \<open>
  C2. When the target series is absent or has fewer than 3 values, or the pooled
  baseline sample has fewer than 3 values, the result is the insufficient-data
  verdict (\<open>p_value = 1.0\<close>, \<open>significant = False\<close>, none of the test's keys),
  whatever the other group's size, the distribution function of the t-test and the
  significance level are: the t-test is not run.
\<close>

theorem insufficient_data_sentinel:
  assumes "parse_period target = Inr tdt"
      and "baseline_loop zs folder poly tdt (baseline_periods baseline) [] [] = Inr (ball, dts)"
      and "extract_daily_no2_for_month zs folder poly tdt = None
           \<or> (\<exists>td. extract_daily_no2_for_month zs folder poly tdt = Some td \<and> length td < 3)
           \<or> length ball < 3"
  shows "calculate_no2_significance stdtr zs folder poly target baseline alpha = Inr insufficient
       \<and> p_value insufficient = Fin 1 \<and> \<not> significant insufficient
       \<and> details insufficient = None"
proof -
  have "calculate_no2_significance stdtr zs folder poly target baseline alpha = Inr insufficient"
    using assms(3) unfolding calculate_unfold [OF assms(1) assms(2)]
    by (auto split: option.splits)
  then show ?thesis by (simp add: insufficient_def)
qed

theorem insufficient_data_sentinel_witness:
  "calculate_no2_significance (\<lambda>df x. 0) zonal_stats
     (series_folder (two_month_series [10, 12] [20, 22, 19, 21, 20])) [True]
     (PStr ''2021_04'') (One (PStr ''2019_04'')) (Fin 0.05) = Inr insufficient
   \<and> calculate_no2_significance (\<lambda>df x. 0) zonal_stats
     (series_folder (two_month_series [10, 12, 11, 13, 9] [20, 22])) [True]
     (PStr ''2021_04'') (One (PStr ''2019_04'')) (Fin 0.05) = Inr insufficient
   \<and> p_value insufficient = Fin 1 \<and> \<not> significant insufficient"
proof -
  have 1: "calculate_no2_significance (\<lambda>df x. 0) zonal_stats
     (series_folder (two_month_series [10, 12] [20, 22, 19, 21, 20])) [True]
     (PStr ''2021_04'') (One (PStr ''2019_04'')) (Fin 0.05) = Inr insufficient
     \<and> p_value insufficient = Fin 1 \<and> \<not> significant insufficient"
    using insufficient_data_sentinel [OF example_periods(1)
        example_series(3) [of "[10, 12]" "[20, 22, 19, 21, 20]"], of "\<lambda>df x. 0" "Fin 0.05"]
      example_series(1) [of "[10, 12]" "[20, 22, 19, 21, 20]"]
    by simp
  have 2: "calculate_no2_significance (\<lambda>df x. 0) zonal_stats
     (series_folder (two_month_series [10, 12, 11, 13, 9] [20, 22])) [True]
     (PStr ''2021_04'') (One (PStr ''2019_04'')) (Fin 0.05) = Inr insufficient"
    using insufficient_data_sentinel [OF example_periods(1)
        example_series(3) [of "[10, 12, 11, 13, 9]" "[20, 22]"], of "\<lambda>df x. 0" "Fin 0.05"]
    by simp
  from 1 2 show ?thesis by blast
qed

lemma calculate_Fin:
  assumes "parse_period target = Inr tdt"
      and "baseline_loop zs folder poly tdt (baseline_periods baseline) [] [] = Inr (map Fin bs, dts)"
      and "extract_daily_no2_for_month zs folder poly tdt = Some (map Fin ts)"
      and "3 \<le> length ts" "3 \<le> length bs"
  shows "calculate_no2_significance stdtr zs folder poly target baseline alpha =
     Inr (significance_test stdtr alpha tdt dts (map Fin ts) (map Fin bs))"
  using assms(3-5) unfolding calculate_unfold [OF assms(1) assms(2)] by simp

lemma fields_Fin:
  fixes stdtr :: "real \<Rightarrow> real \<Rightarrow> real" and alpha :: fl and r
  assumes "parse_period target = Inr tdt"
      and "baseline_loop zs folder poly tdt (baseline_periods baseline) [] [] = Inr (map Fin bs, dts)"
      and "extract_daily_no2_for_month zs folder poly tdt = Some (map Fin ts)"
      and "3 \<le> length ts" "3 \<le> length bs"
  defines "r \<equiv> calculate_no2_significance stdtr zs folder poly target baseline alpha"
  shows "detail t_statistic r = Some (student_t_fl bs ts)"
    and "p_value_of r =
           Some (ttest_finish stdtr (real (length bs) + real (length ts) - 2) (student_t_fl bs ts))"
    and "significant_of r =
           Some (fl_lt (ttest_finish stdtr (real (length bs) + real (length ts) - 2)
                          (student_t_fl bs ts)) alpha)"
    and "detail cohens_d r =
           Some (if 0 < pooled_var bs ts
                 then Fin ((mean ts - mean bs) / sqrt (pooled_var bs ts)) else Fin 0)"
    and "detail percent_change r =
           Some (if mean bs \<noteq> 0 then Fin ((mean ts - mean bs) / mean bs * 100) else Fin 0)"
    and "detail target_mean r = Some (Fin (mean ts))"
    and "detail baseline_mean r = Some (Fin (mean bs))"
    and "detail target_std r = Some (Fin (sqrt (sample_var ts)))"
    and "detail baseline_std r = Some (Fin (sqrt (sample_var bs)))"
    and "detail n_target r = Some (length ts)"
    and "detail n_baseline r = Some (length bs)"
    and "r \<noteq> Inr insufficient"
  unfolding r_def calculate_Fin [OF assms(1-5)] significance_test_Fin [OF assms(4) assms(5)]
  by (simp_all add: detail_def p_value_of_def significant_of_def Let_def insufficient_def)

lemma student_t_fl_cases:
  assumes "2 \<le> length xs" "2 \<le> length ys"
  shows "pooled_var xs ys \<noteq> 0 \<Longrightarrow> student_t_fl xs ys = Fin (student_t xs ys)"
    and "pooled_var xs ys = 0 \<Longrightarrow> student_t_fl xs ys =
           (if mean xs = mean ys then NaN else if mean ys < mean xs then PInf else NInf)"
proof -
  have k: "1 / real (length xs) + 1 / real (length ys) \<noteq> 0"
  proof -
    from assms have "0 < length xs" "0 < length ys" by linarith+
    then have "0 < 1 / real (length xs)" "0 < 1 / real (length ys)"
      by (simp_all del: length_greater_0_conv)
    then show ?thesis by linarith
  qed
  show "student_t_fl xs ys = Fin (student_t xs ys)" if "pooled_var xs ys \<noteq> 0"
    using that k by (simp add: student_t_fl_def student_t_def)
  show "student_t_fl xs ys =
           (if mean xs = mean ys then NaN else if mean ys < mean xs then PInf else NInf)"
    if "pooled_var xs ys = 0"
    using that by (simp add: student_t_fl_def)
qed



section \<open>Proofs: the verdict on finite series\<close>

lemma significance_test_exact:
  "significance_test stdtr alpha tdt dts td ball
     = significance_test_with (exact_lib stdtr) alpha tdt dts td ball"
  by (simp add: significance_test_def significance_test_with_def pooled_std_with_def
      exact_lib_def Let_def split_def)

lemma calculate_exact:
  "calculate_no2_significance stdtr zs folder poly target baseline alpha
     = calculate_no2_significance_with (exact_lib stdtr) zs folder poly target baseline alpha"
  unfolding calculate_no2_significance_def calculate_no2_significance_with_def
    significance_test_exact ..

lemma calculate_with_unfold:
  assumes "parse_period target = Inr tdt"
      and "baseline_loop zs folder poly tdt (baseline_periods baseline) [] [] = Inr (ball, dts)"
  shows "calculate_no2_significance_with L zs folder poly target baseline alpha =
     (case extract_daily_no2_for_month zs folder poly tdt of
        None \<Rightarrow> Inr insufficient
      | Some td \<Rightarrow>
          if length ball < 3 \<or> length td < 3 then Inr insufficient
          else Inr (significance_test_with L alpha tdt dts td ball))"
  using assms by (simp add: calculate_no2_significance_with_def)

lemma calculate_with_full:
  assumes "parse_period target = Inr tdt"
      and "baseline_loop zs folder poly tdt (baseline_periods baseline) [] [] = Inr (ball, dts)"
      and "extract_daily_no2_for_month zs folder poly tdt = Some td"
      and "3 \<le> length td" "3 \<le> length ball"
  shows "calculate_no2_significance_with L zs folder poly target baseline alpha =
     Inr (significance_test_with L alpha tdt dts td ball)"
  using assms(3-5) unfolding calculate_with_unfold [OF assms(1) assms(2)] by simp

lemma fields_with:
  fixes L :: numlib and alpha :: fl and r
  assumes "parse_period target = Inr tdt"
      and "baseline_loop zs folder poly tdt (baseline_periods baseline) [] [] = Inr (ball, dts)"
      and "extract_daily_no2_for_month zs folder poly tdt = Some td"
      and "3 \<le> length td" "3 \<le> length ball"
  defines "r \<equiv> calculate_no2_significance_with L zs folder poly target baseline alpha"
  shows "detail t_statistic r = Some (fst (lib_ttest L ball td))"
    and "p_value_of r = Some (snd (lib_ttest L ball td))"
    and "significant_of r = Some (fl_lt (snd (lib_ttest L ball td)) alpha)"
    and "detail cohens_d r =
           Some (if fl_lt (Fin 0) (pooled_std_with L td ball)
                 then f_div L (f_sub L (lib_mean L td) (lib_mean L ball))
                        (pooled_std_with L td ball)
                 else Fin 0)"
    and "detail percent_change r =
           Some (if fl_eq (lib_mean L ball) (Fin 0) then Fin 0
                 else f_mul L (f_div L (f_sub L (lib_mean L td) (lib_mean L ball))
                                 (lib_mean L ball)) (Fin 100))"
    and "detail target_mean r = Some (lib_mean L td)"
    and "detail baseline_mean r = Some (lib_mean L ball)"
    and "detail target_std r = Some (lib_std L td)"
    and "detail baseline_std r = Some (lib_std L ball)"
    and "r \<noteq> Inr insufficient"
  unfolding r_def calculate_with_full [OF assms(1-5)]
  by (simp_all add: significance_test_with_def detail_def p_value_of_def significant_of_def
      Let_def insufficient_def split_def)

lemma exact_constant_series:
  assumes "3 \<le> k"
  shows "lib_mean (exact_lib stdtr) (map Fin (replicate k c)) = Fin c"
    and "pooled_std_with (exact_lib stdtr) (map Fin (replicate k c)) (map Fin (replicate k c))
           = Fin 0"
    and "lib_ttest (exact_lib stdtr) (map Fin (replicate k c)) (map Fin (replicate k c))
           = (NaN, NaN)"
proof -
  from assms have k: "0 < k" "2 \<le> length (replicate k c)" by simp_all
  have m: "mean (replicate k c) = c"
    using k(1) by (simp add: mean_def sum_list_replicate)
  have v: "sample_var (replicate k c) = 0"
    by (simp add: sample_var_def m sum_list_replicate)
  have pv: "pooled_var (replicate k c) (replicate k c) = 0"
    by (simp add: pooled_var_def v)
  show "lib_mean (exact_lib stdtr) (map Fin (replicate k c)) = Fin c"
    using k(1) np_mean_Fin [of "replicate k c"] by (simp add: exact_lib_def m)
  have sd: "np_std (map Fin (replicate k c)) = Fin 0"
    by (simp only: np_std_Fin [OF k(2)] v) simp
  show "pooled_std_with (exact_lib stdtr) (map Fin (replicate k c)) (map Fin (replicate k c))
           = Fin 0"
    using assms by (simp add: pooled_std_with_def exact_lib_def sd del: map_replicate)
  have t: "student_t_fl (replicate k c) (replicate k c) = NaN"
    by (simp add: student_t_fl_def pv)
  show "lib_ttest (exact_lib stdtr) (map Fin (replicate k c)) (map Fin (replicate k c))
           = (NaN, NaN)"
    by (simp only: exact_lib_def numlib.simps ttest_ind_Fin [OF k(2) k(2)] t)
       (simp add: ttest_finish_def)
qed

text \<open>
  C7. Whatever the numerical library computes, the call does not raise once the
  periods are resolved. With at least 3 samples in each group the two divisions are
  guarded: Cohen's d is the quotient only when the pooled standard deviation is
  greater than 0 and is 0 otherwise, so it is 0 when the pooled standard deviation
  is 0; the percent change is 0 when the baseline mean is exactly 0 and the relative
  difference times 100 otherwise.
\<close>

theorem guarded_divisions:
  assumes "parse_period target = Inr tdt"
      and "baseline_loop zs folder poly tdt (baseline_periods baseline) [] [] = Inr (ball, dts)"
  shows "(\<exists>v. calculate_no2_significance_with L zs folder poly target baseline alpha = Inr v)
       \<and> (extract_daily_no2_for_month zs folder poly tdt = Some td
            \<and> 3 \<le> length td \<and> 3 \<le> length ball \<longrightarrow>
          (let r = calculate_no2_significance_with L zs folder poly target baseline alpha;
               pooled = pooled_std_with L td ball;
               t_mean = lib_mean L td;
               b_mean = lib_mean L ball
           in detail cohens_d r
                = Some (if fl_lt (Fin 0) pooled then f_div L (f_sub L t_mean b_mean) pooled
                        else Fin 0)
              \<and> (pooled = Fin 0 \<longrightarrow> detail cohens_d r = Some (Fin 0))
              \<and> detail percent_change r
                = Some (if fl_eq b_mean (Fin 0) then Fin 0
                        else f_mul L (f_div L (f_sub L t_mean b_mean) b_mean) (Fin 100))
              \<and> (b_mean = Fin 0 \<longrightarrow> detail percent_change r = Some (Fin 0))))"
proof -
  have a: "\<exists>v. calculate_no2_significance_with L zs folder poly target baseline alpha = Inr v"
    unfolding calculate_with_unfold [OF assms] by (simp split: option.splits)
  have b: "let r = calculate_no2_significance_with L zs folder poly target baseline alpha;
               pooled = pooled_std_with L td ball;
               t_mean = lib_mean L td;
               b_mean = lib_mean L ball
           in detail cohens_d r
                = Some (if fl_lt (Fin 0) pooled then f_div L (f_sub L t_mean b_mean) pooled
                        else Fin 0)
              \<and> (pooled = Fin 0 \<longrightarrow> detail cohens_d r = Some (Fin 0))
              \<and> detail percent_change r
                = Some (if fl_eq b_mean (Fin 0) then Fin 0
                        else f_mul L (f_div L (f_sub L t_mean b_mean) b_mean) (Fin 100))
              \<and> (b_mean = Fin 0 \<longrightarrow> detail percent_change r = Some (Fin 0))"
    if h: "extract_daily_no2_for_month zs folder poly tdt = Some td"
       "3 \<le> length td" "3 \<le> length ball"
    unfolding Let_def fields_with(4) [OF assms h] fields_with(5) [OF assms h]
    by simp
  from a b show ?thesis by blast
qed

theorem guarded_divisions_witness:
  "detail cohens_d
     (calculate_no2_significance_with (exact_lib (\<lambda>df x. 0)) zonal_stats
        (series_folder (two_month_series [10, 10, 10] [10, 10, 10])) [True]
        (PStr ''2021_04'') (One (PStr ''2019_04'')) (Fin 0.05)) = Some (Fin 0)
   \<and> detail percent_change
     (calculate_no2_significance_with (exact_lib (\<lambda>df x. 0)) zonal_stats
        (series_folder (two_month_series [10, 10, 10] [10, 10, 10])) [True]
        (PStr ''2021_04'') (One (PStr ''2019_04'')) (Fin 0.05)) = Some (Fin 0)"
proof -
  have ex: "baseline_loop zonal_stats
              (series_folder (two_month_series [10, 10, 10] [10, 10, 10])) [True] (2021, 4)
              (baseline_periods (One (PStr ''2019_04''))) [] []
            = Inr (map Fin (replicate 3 10), [(2019, 4)])"
           "extract_daily_no2_for_month zonal_stats
              (series_folder (two_month_series [10, 10, 10] [10, 10, 10])) [True] (2021, 4)
            = Some (map Fin (replicate 3 10))"
    using example_series [of "[10, 10, 10]" "[10, 10, 10]"]
    by (simp_all add: numeral_3_eq_3)
  have l3: "3 \<le> length (map Fin (replicate 3 (10 :: real)))" by simp
  note t = guarded_divisions [OF example_periods(1) ex(1),
      where L = "exact_lib (\<lambda>df x. 0)" and td = "map Fin (replicate 3 10)"
        and alpha = "Fin 0.05"]
  from t ex(2) l3 have "detail cohens_d
     (calculate_no2_significance_with (exact_lib (\<lambda>df x. 0)) zonal_stats
        (series_folder (two_month_series [10, 10, 10] [10, 10, 10])) [True]
        (PStr ''2021_04'') (One (PStr ''2019_04'')) (Fin 0.05))
      = Some (if fl_lt (Fin 0)
                   (pooled_std_with (exact_lib (\<lambda>df x. 0)) (map Fin (replicate 3 10))
                      (map Fin (replicate 3 10)))
              then f_div (exact_lib (\<lambda>df x. 0))
                     (f_sub (exact_lib (\<lambda>df x. 0))
                        (lib_mean (exact_lib (\<lambda>df x. 0)) (map Fin (replicate 3 10)))
                        (lib_mean (exact_lib (\<lambda>df x. 0)) (map Fin (replicate 3 10))))
                     (pooled_std_with (exact_lib (\<lambda>df x. 0)) (map Fin (replicate 3 10))
                        (map Fin (replicate 3 10)))
              else Fin 0)
    \<and> detail percent_change
     (calculate_no2_significance_with (exact_lib (\<lambda>df x. 0)) zonal_stats
        (series_folder (two_month_series [10, 10, 10] [10, 10, 10])) [True]
        (PStr ''2021_04'') (One (PStr ''2019_04'')) (Fin 0.05))
      = Some (if fl_eq (lib_mean (exact_lib (\<lambda>df x. 0)) (map Fin (replicate 3 10))) (Fin 0)
              then Fin 0
              else f_mul (exact_lib (\<lambda>df x. 0))
                     (f_div (exact_lib (\<lambda>df x. 0))
                        (f_sub (exact_lib (\<lambda>df x. 0))
                           (lib_mean (exact_lib (\<lambda>df x. 0)) (map Fin (replicate 3 10)))
                           (lib_mean (exact_lib (\<lambda>df x. 0)) (map Fin (replicate 3 10))))
                        (lib_mean (exact_lib (\<lambda>df x. 0)) (map Fin (replicate 3 10))))
                     (Fin 100))"
    unfolding Let_def by blast
  then show ?thesis
    unfolding exact_constant_series(1,2) [where k = 3 and stdtr = "\<lambda>df x. 0" and c = 10,
        OF order_refl]
    by (simp add: exact_lib_def fl_sub_def)
qed

text \<open>
  C4 (as amended). With at least 3 samples in each group the full verdict is returned
  and never replaced by the insufficient-data verdict, whatever the numerical
  library computes: the code has no finiteness check. The p-value and the t
  statistic are what the t-test returned and the means and standard deviations what
  numpy returned, finite or not; the flag is the comparison of the p-value with
  alpha, so a NaN p-value is returned as NaN with \<open>significant\<close> false.
\<close>

theorem verdict_finiteness:
  assumes "parse_period target = Inr tdt"
      and "baseline_loop zs folder poly tdt (baseline_periods baseline) [] [] = Inr (ball, dts)"
      and "extract_daily_no2_for_month zs folder poly tdt = Some td"
      and "3 \<le> length td" "3 \<le> length ball"
  shows "let r = calculate_no2_significance_with L zs folder poly target baseline alpha in
     r \<noteq> Inr insufficient
     \<and> detail t_statistic r = Some (fst (lib_ttest L ball td))
     \<and> p_value_of r = Some (snd (lib_ttest L ball td))
     \<and> significant_of r = Some (fl_lt (snd (lib_ttest L ball td)) alpha)
     \<and> detail target_mean r = Some (lib_mean L td)
     \<and> detail baseline_mean r = Some (lib_mean L ball)
     \<and> detail target_std r = Some (lib_std L td)
     \<and> detail baseline_std r = Some (lib_std L ball)
     \<and> detail cohens_d r =
           Some (if fl_lt (Fin 0) (pooled_std_with L td ball)
                 then f_div L (f_sub L (lib_mean L td) (lib_mean L ball))
                        (pooled_std_with L td ball)
                 else Fin 0)
     \<and> detail percent_change r =
           Some (if fl_eq (lib_mean L ball) (Fin 0) then Fin 0
                 else f_mul L (f_div L (f_sub L (lib_mean L td) (lib_mean L ball))
                                 (lib_mean L ball)) (Fin 100))
     \<and> (snd (lib_ttest L ball td) = NaN \<longrightarrow>
          p_value_of r = Some NaN \<and> significant_of r = Some False)"
proof -
  note f = fields_with [OF assms, of L alpha]
  have n: "p_value_of (calculate_no2_significance_with L zs folder poly target baseline alpha)
             = Some NaN
         \<and> significant_of
             (calculate_no2_significance_with L zs folder poly target baseline alpha)
             = Some False"
    if "snd (lib_ttest L ball td) = NaN"
    unfolding f(2) f(3) that by simp
  from f n show ?thesis
    unfolding Let_def by (intro conjI impI) simp_all
qed

theorem verdict_finiteness_witness:
  "calculate_no2_significance_with (exact_lib (\<lambda>df x. 0)) zonal_stats
     (series_folder (two_month_series [7, 7, 7] [7, 7, 7])) [True]
     (PStr ''2021_04'') (One (PStr ''2019_04'')) (Fin 0.05) \<noteq> Inr insufficient
   \<and> p_value_of
       (calculate_no2_significance_with (exact_lib (\<lambda>df x. 0)) zonal_stats
          (series_folder (two_month_series [7, 7, 7] [7, 7, 7])) [True]
          (PStr ''2021_04'') (One (PStr ''2019_04'')) (Fin 0.05)) = Some NaN
   \<and> significant_of
       (calculate_no2_significance_with (exact_lib (\<lambda>df x. 0)) zonal_stats
          (series_folder (two_month_series [7, 7, 7] [7, 7, 7])) [True]
          (PStr ''2021_04'') (One (PStr ''2019_04'')) (Fin 0.05)) = Some False"
proof -
  have ex: "baseline_loop zonal_stats
              (series_folder (two_month_series [7, 7, 7] [7, 7, 7])) [True] (2021, 4)
              (baseline_periods (One (PStr ''2019_04''))) [] []
            = Inr (map Fin (replicate 3 7), [(2019, 4)])"
           "extract_daily_no2_for_month zonal_stats
              (series_folder (two_month_series [7, 7, 7] [7, 7, 7])) [True] (2021, 4)
            = Some (map Fin (replicate 3 7))"
    using example_series [of "[7, 7, 7]" "[7, 7, 7]"]
    by (simp_all add: numeral_3_eq_3)
  have l3: "3 \<le> length (map Fin (replicate 3 (7 :: real)))" by simp
  have nan: "snd (lib_ttest (exact_lib (\<lambda>df x. 0)) (map Fin (replicate 3 7))
                     (map Fin (replicate 3 7))) = NaN"
    by (simp only: exact_constant_series(3) [OF order_refl] snd_conv)
  note t = verdict_finiteness [OF example_periods(1) ex l3 l3,
      where L = "exact_lib (\<lambda>df x. 0)" and alpha = "Fin 0.05"]
  from t nan show ?thesis
    unfolding Let_def by blast
qed

text \<open>
  The claim as stated fails: for the constant series [10, 10, 10] and [10, 10, 10]
  the p-value and the t statistic are NaN, and the result is the full verdict, not
  the insufficient-data verdict.
\<close>

theorem verdict_finiteness_counterexample:
  "p_value_of
     (calculate_no2_significance (\<lambda>df x. 0) zonal_stats
        (series_folder (two_month_series [10, 10, 10] [10, 10, 10])) [True]
        (PStr ''2021_04'') (One (PStr ''2019_04'')) (Fin 0.05)) = Some NaN
   \<and> detail t_statistic
     (calculate_no2_significance (\<lambda>df x. 0) zonal_stats
        (series_folder (two_month_series [10, 10, 10] [10, 10, 10])) [True]
        (PStr ''2021_04'') (One (PStr ''2019_04'')) (Fin 0.05)) = Some NaN
   \<and> calculate_no2_significance (\<lambda>df x. 0) zonal_stats
        (series_folder (two_month_series [10, 10, 10] [10, 10, 10])) [True]
        (PStr ''2021_04'') (One (PStr ''2019_04'')) (Fin 0.05) \<noteq> Inr insufficient"
proof -
  have pv: "pooled_var [10, 10, 10] [10, 10, 10] = 0"
    by (simp add: pooled_var_def sample_var_def mean_def)
  have t: "student_t_fl [10, 10, 10] [10, 10, 10] = NaN"
    by (simp add: student_t_fl_def pv)
  note f = fields_Fin [OF example_periods(1)
      example_series(3) [of "[10, 10, 10]" "[10, 10, 10]"]
      example_series(1) [of "[10, 10, 10]" "[10, 10, 10]"],
      where stdtr = "\<lambda>df x. 0" and alpha = "Fin 0.05"]
  from f(1) f(2) f(12) show ?thesis
    by (simp add: t ttest_finish_def)
qed

text \<open>
  C3 (as amended). When both groups have at least 3 (finite) samples, the test is the
  unpaired two-sample Student t-test with the pooled variance (equal variances
  assumed, the default of \<open>ttest_ind\<close>), of the baseline sample against the target
  sample: the t statistic is the difference of the means over the pooled standard
  error, by numpy's division, and the p-value is the two-sided probability at
  \<open>n1 + n2 - 2\<close> degrees of freedom. The samples may have different sizes.
\<close>

theorem student_t_test:
  assumes "parse_period target = Inr tdt"
      and "baseline_loop zs folder poly tdt (baseline_periods baseline) [] [] = Inr (map Fin bs, dts)"
      and "extract_daily_no2_for_month zs folder poly tdt = Some (map Fin ts)"
      and "3 \<le> length ts" "3 \<le> length bs"
  shows "let r = calculate_no2_significance stdtr zs folder poly target baseline alpha;
             df = real (length bs) + real (length ts) - 2 in
     detail t_statistic r = Some (student_t_fl bs ts)
     \<and> p_value_of r = Some (ttest_finish stdtr df (student_t_fl bs ts))
     \<and> (pooled_var bs ts \<noteq> 0 \<longrightarrow>
          detail t_statistic r = Some (Fin (student_t bs ts))
          \<and> p_value_of r = Some (Fin (2 * stdtr df (- \<bar>student_t bs ts\<bar>))))"
proof -
  note f = fields_Fin [OF assms, of stdtr alpha]
  from assms have l2: "2 \<le> length bs" "2 \<le> length ts" by auto
  note c = student_t_fl_cases(1) [OF l2]
  have "detail t_statistic
          (calculate_no2_significance stdtr zs folder poly target baseline alpha)
        = Some (Fin (student_t bs ts))
      \<and> p_value_of (calculate_no2_significance stdtr zs folder poly target baseline alpha)
        = Some (Fin (2 * stdtr (real (length bs) + real (length ts) - 2)
                       (- \<bar>student_t bs ts\<bar>)))"
    if "pooled_var bs ts \<noteq> 0"
    unfolding f(1) f(2) c [OF that] by (simp add: ttest_finish_def)
  with f(1) f(2) show ?thesis
    unfolding Let_def by blast
qed

lemma example_unequal_samples:
  "pooled_var [10, 14, 10, 14] [1, 2, 3] = 18 / 5"
  "student_t [10, 14, 10, 14] [1, 2, 3] = 10 / sqrt (21 / 10)"
  "welch_t [10, 14, 10, 14] [1, 2, 3] = 10 / sqrt (5 / 3)"
proof -
  have m: "mean [10, 14, 10, 14] = 12" "mean [1, 2, 3] = 2"
    by (simp_all add: mean_def)
  have v: "sample_var [10, 14, 10, 14] = 16 / 3" "sample_var [1, 2, 3] = 1"
    by (simp_all add: sample_var_def m)
  show p: "pooled_var [10, 14, 10, 14] [1, 2, 3] = 18 / 5"
    by (simp add: pooled_var_def v)
  have "(18 / 5 :: real) * (1 / real (length [10 :: real, 14, 10, 14])
          + 1 / real (length [1 :: real, 2, 3])) = 21 / 10"
    by simp
  then show "student_t [10, 14, 10, 14] [1, 2, 3] = 10 / sqrt (21 / 10)"
    by (simp only: student_t_def p m) simp
  have "sample_var [10, 14, 10, 14] / real (length [10 :: real, 14, 10, 14])
          + sample_var [1, 2, 3] / real (length [1 :: real, 2, 3]) = 5 / 3"
    by (simp add: v)
  then show "welch_t [10, 14, 10, 14] [1, 2, 3] = 10 / sqrt (5 / 3)"
    by (simp only: welch_t_def m) simp
qed

lemma sqrt_quotients_differ: "(10 :: real) / sqrt (21 / 10) \<noteq> 10 / sqrt (5 / 3)"
proof
  assume "(10 :: real) / sqrt (21 / 10) = 10 / sqrt (5 / 3)"
  then have "sqrt (21 / 10 :: real) = sqrt (5 / 3)"
    by (simp add: divide_simps del: real_sqrt_eq_iff)
  then have "(21 / 10 :: real) = 5 / 3"
    by (simp only: real_sqrt_eq_iff)
  then show False by simp
qed

theorem student_t_test_witness:
  "detail t_statistic
     (calculate_no2_significance (\<lambda>df x. 0) zonal_stats
        (series_folder (two_month_series [1, 2, 3] [10, 14, 10, 14])) [True]
        (PStr ''2021_04'') (One (PStr ''2019_04'')) (Fin 0.05))
     = Some (Fin (10 / sqrt (21 / 10)))
   \<and> p_value_of
     (calculate_no2_significance (\<lambda>df x. 0) zonal_stats
        (series_folder (two_month_series [1, 2, 3] [10, 14, 10, 14])) [True]
        (PStr ''2021_04'') (One (PStr ''2019_04'')) (Fin 0.05))
     = Some (Fin 0)"
proof -
  have pv: "pooled_var [10, 14, 10, 14] [1, 2, 3] \<noteq> 0"
    by (simp add: example_unequal_samples(1))
  have ex: "baseline_loop zonal_stats
              (series_folder (two_month_series [1, 2, 3] [10, 14, 10, 14])) [True] (2021, 4)
              (baseline_periods (One (PStr ''2019_04''))) [] []
            = Inr (map Fin [10, 14, 10, 14], [(2019, 4)])"
           "extract_daily_no2_for_month zonal_stats
              (series_folder (two_month_series [1, 2, 3] [10, 14, 10, 14])) [True] (2021, 4)
            = Some (map Fin [1, 2, 3])"
    using example_series [of "[1, 2, 3]" "[10, 14, 10, 14]"] by simp_all
  have l3: "3 \<le> length [1 :: real, 2, 3]" "3 \<le> length [10 :: real, 14, 10, 14]"
    by simp_all
  note t = student_t_test [OF example_periods(1) ex l3,
      where stdtr = "\<lambda>df x. 0" and alpha = "Fin 0.05"]
  from t pv have "detail t_statistic
     (calculate_no2_significance (\<lambda>df x. 0) zonal_stats
        (series_folder (two_month_series [1, 2, 3] [10, 14, 10, 14])) [True]
        (PStr ''2021_04'') (One (PStr ''2019_04'')) (Fin 0.05))
     = Some (Fin (student_t [10, 14, 10, 14] [1, 2, 3]))
   \<and> p_value_of
     (calculate_no2_significance (\<lambda>df x. 0) zonal_stats
        (series_folder (two_month_series [1, 2, 3] [10, 14, 10, 14])) [True]
        (PStr ''2021_04'') (One (PStr ''2019_04'')) (Fin 0.05))
     = Some (Fin (2 * 0))"
    unfolding Let_def by blast
  then show ?thesis
    by (simp add: example_unequal_samples(2))
qed

text \<open>
  The claim as stated fails: for a target of 3 and a baseline of 4 samples with
  different variances the t statistic of the code is Student's, and differs from
  Welch's.
\<close>

theorem student_t_test_counterexample:
  "detail t_statistic
     (calculate_no2_significance (\<lambda>df x. 0) zonal_stats
        (series_folder (two_month_series [1, 2, 3] [10, 14, 10, 14])) [True]
        (PStr ''2021_04'') (One (PStr ''2019_04'')) (Fin 0.05))
     \<noteq> Some (Fin (welch_t [10, 14, 10, 14] [1, 2, 3]))"
proof -
  have pv: "pooled_var [10, 14, 10, 14] [1, 2, 3] \<noteq> 0"
    by (simp add: example_unequal_samples(1))
  have l: "2 \<le> length [10 :: real, 14, 10, 14]" "2 \<le> length [1 :: real, 2, 3]"
    by simp_all
  note f = fields_Fin(1) [OF example_periods(1)
      example_series(3) [of "[1, 2, 3]" "[10, 14, 10, 14]"]
      example_series(1) [of "[1, 2, 3]" "[10, 14, 10, 14]"],
      where stdtr = "\<lambda>df x. 0" and alpha = "Fin 0.05"]
  have "detail t_statistic
     (calculate_no2_significance (\<lambda>df x. 0) zonal_stats
        (series_folder (two_month_series [1, 2, 3] [10, 14, 10, 14])) [True]
        (PStr ''2021_04'') (One (PStr ''2019_04'')) (Fin 0.05))
     = Some (Fin (10 / sqrt (21 / 10)))"
    using f by (simp add: student_t_fl_cases(1) [OF l pv] example_unequal_samples(2))
  then show ?thesis
    using sqrt_quotients_differ by (simp add: example_unequal_samples(3))
qed








section \<open>Proofs: monthly aggregation\<close>

lemma read_all_rasters: "read_all (map Raster rs) = Some (map nodata_to_nan rs)"
  by (induction rs) simp_all

lemma length_nodata_to_nan: "length (nodata_to_nan src) = length (data src)"
  by (simp add: nodata_to_nan_def split: option.splits)

lemma nth_nodata_to_nan:
  "i < length (data src) \<Longrightarrow>
   nodata_to_nan src ! i = (if is_nodata src (data src ! i) then NaN else data src ! i)"
  by (simp add: nodata_to_nan_def is_nodata_def split: option.splits)

lemma np_stack_same_shape:
  assumes "rs \<noteq> []" "\<forall>src \<in> set rs. length (data src) = n"
  shows "np_stack (map nodata_to_nan rs) = Some (map nodata_to_nan rs)"
proof -
  from assms(1) obtain r rest where rs: "rs = r # rest" by (cases rs) auto
  with assms(2) have "list_all (\<lambda>b. length b = length (nodata_to_nan r)) (map nodata_to_nan rest)"
    by (simp add: list_all_iff length_nodata_to_nan)
  then show ?thesis by (simp add: np_stack_def rs)
qed

lemma column_valid_samples:
  assumes "\<forall>src \<in> set rs. length (data src) = n" "i < n"
  shows "filter (\<lambda>v. \<not> is_nan v) (map (\<lambda>arr. arr ! i) (map nodata_to_nan rs))
         = valid_samples rs i"
  using assms(1)
proof (induction rs)
  case Nil
  show ?case by (simp add: valid_samples_def)
next
  case (Cons r rs)
  then have ih: "filter (\<lambda>v. \<not> is_nan v) (map (\<lambda>arr. arr ! i) (map nodata_to_nan rs))
         = valid_samples rs i" by simp
  from Cons.prems assms(2) have "i < length (data r)" by simp
  then have "nodata_to_nan r ! i = (if is_nodata r (data r ! i) then NaN else data r ! i)"
    by (rule nth_nodata_to_nan)
  with ih show ?case by (simp add: valid_samples_def)
qed

lemma monthrange_pos: "0 < monthrange y m"
  by (simp add: monthrange_def)

lemma aggregate_month_rasters:
  assumes len: "length daily_files = monthrange y m"
      and files: "map snd (sort_key fst daily_files) = map Raster rs"
      and shape: "\<forall>src \<in> set rs. length (data src) = n"
  shows "aggregate_month req (y, m) daily_files =
     Some \<lparr>data = map (monthly_pixel rs) [0 ..< n], nodata = Some (Fin (- 9999))\<rparr>"
proof -
  have "length (map snd (sort_key fst daily_files)) = length (map Raster rs)"
    by (simp only: files)
  then have "length rs = monthrange y m" using len by simp
  then have ne: "rs \<noteq> []" using monthrange_pos [of y m] by auto
  then obtain r rest where rs: "rs = r # rest" by (cases rs) auto
  have lr: "length (nodata_to_nan r) = n"
    using shape rs by (simp add: length_nodata_to_nan)
  have col: "nanmean (map (\<lambda>arr. arr ! i) (map nodata_to_nan rs)) = np_mean (valid_samples rs i)"
    if "i < n" for i
    unfolding nanmean_def column_valid_samples [OF shape that] ..
  have empty: "np_mean [] = NaN"
    by (simp add: np_mean_def np_sum_def)
  have px: "(if is_nan (np_mean (valid_samples rs i)) then Fin (- 9999)
             else np_mean (valid_samples rs i)) = monthly_pixel rs i" for i
    by (simp add: monthly_pixel_def Let_def empty)
  have "nanmean_axis0 (map nodata_to_nan rs)
      = map (\<lambda>i. nanmean (map (\<lambda>arr. arr ! i) (map nodata_to_nan rs))) [0 ..< n]"
    by (simp add: nanmean_axis0_def rs lr)
  also have "\<dots> = map (\<lambda>i. np_mean (valid_samples rs i)) [0 ..< n]"
  proof (rule map_cong)
    show "[0 ..< n] = [0 ..< n]" ..
  next
    fix i assume "i \<in> set [0 ..< n]"
    then have "i < n" by simp
    then show "nanmean (map (\<lambda>arr. arr ! i) (map nodata_to_nan rs))
        = np_mean (valid_samples rs i)"
      by (rule col)
  qed
  finally have ax: "nanmean_axis0 (map nodata_to_nan rs)
      = map (\<lambda>i. np_mean (valid_samples rs i)) [0 ..< n]" .
  have "map (\<lambda>v. if is_nan v then Fin (- 9999) else v) (nanmean_axis0 (map nodata_to_nan rs))
      = map (monthly_pixel rs) [0 ..< n]"
    unfolding ax by (simp add: px comp_def)
  then show ?thesis
    unfolding aggregate_month_def Let_def
    using len by (simp add: files read_all_rasters np_stack_same_shape [OF ne shape])
qed

lemma aggregate_outputs:
  "(ym, out) \<in> set (aggregate_daily_to_monthly daily_folder req) \<longleftrightarrow>
     ym \<in> set (map year_month_of daily_folder)
     \<and> aggregate_month req ym (filter (\<lambda>file. year_month_of file = ym) daily_folder) = Some out"
proof -
  have m: "z \<in> set (List.map_filter f xs) \<longleftrightarrow> (\<exists>x \<in> set xs. f x = Some z)"
    for z :: "'b" and f :: "'a \<Rightarrow> 'b option" and xs
    by (induction xs) (auto simp: map_filter_simps split: option.splits)
  show ?thesis
    unfolding aggregate_daily_to_monthly_def m by auto
qed

lemma np_mean_finite:
  assumes "\<forall>v \<in> set vs. is_finite v" "vs \<noteq> []"
  shows "\<exists>x. np_mean vs = Fin x"
proof -
  have "\<exists>xs. vs = map Fin xs"
    using assms(1)
  proof (induction vs)
    case Nil
    show ?case by simp
  next
    case (Cons v vs)
    then obtain xs where "vs = map Fin xs" by auto
    moreover from Cons.prems obtain x where "v = Fin x" by (cases v) auto
    ultimately have "v # vs = map Fin (x # xs)" by simp
    then show ?case by (rule exI)
  qed
  then obtain xs where xs: "vs = map Fin xs" by blast
  with assms(2) have "xs \<noteq> []" by auto
  then show ?thesis by (simp add: xs np_mean_Fin)
qed

lemma valid_samples_empty:
  "valid_samples rs i = [] \<longleftrightarrow>
     (\<forall>src \<in> set rs. is_nodata src (data src ! i) \<or> is_nan (data src ! i))"
  by (auto simp: valid_samples_def filter_empty_conv)

text \<open>
  C5 (as amended). With the full-month gate, a month whose number of daily files
  differs from its calendar day count is skipped. When the count matches, the files
  can be read and the grids have one shape, the monthly grid has that shape and the
  nodata sentinel -9999, and its value at each cell is the mean of the daily samples
  that are neither NaN nor equal to their file's nodata sentinel (infinite samples
  are not left out), or -9999 when that mean is undefined. A cell has no sample that
  counts exactly when it is nodata or NaN in every daily grid, and then it is -9999.
  When the samples that count are finite, the cell is -9999 exactly when there is
  none or their mean is -9999 itself.
\<close>

theorem monthly_aggregation:
  "(length daily_files \<noteq> monthrange y m \<longrightarrow> aggregate_month True (y, m) daily_files = None)
   \<and> (length daily_files = monthrange y m
        \<and> map snd (sort_key fst daily_files) = map Raster rs
        \<and> (\<forall>src \<in> set rs. length (data src) = n) \<longrightarrow>
      aggregate_month True (y, m) daily_files
        = Some \<lparr>data = map (monthly_pixel rs) [0 ..< n], nodata = Some (Fin (- 9999))\<rparr>
      \<and> (\<forall>i. monthly_pixel rs i =
               (if valid_samples rs i = [] \<or> is_nan (np_mean (valid_samples rs i))
                then Fin (- 9999) else np_mean (valid_samples rs i)))
      \<and> (\<forall>i. valid_samples rs i = [] \<longleftrightarrow>
               (\<forall>src \<in> set rs. is_nodata src (data src ! i) \<or> is_nan (data src ! i)))
      \<and> (\<forall>i. (\<forall>v \<in> set (valid_samples rs i). is_finite v) \<longrightarrow>
               (monthly_pixel rs i = Fin (- 9999) \<longleftrightarrow>
                  valid_samples rs i = [] \<or> np_mean (valid_samples rs i) = Fin (- 9999))))"
proof -
  have a: "aggregate_month True (y, m) daily_files = None"
    if "length daily_files \<noteq> monthrange y m"
    using that by (simp add: aggregate_month_def)
  have b: "monthly_pixel rs i =
               (if valid_samples rs i = [] \<or> is_nan (np_mean (valid_samples rs i))
                then Fin (- 9999) else np_mean (valid_samples rs i))" for i
    by (simp add: monthly_pixel_def Let_def)
  have c: "monthly_pixel rs i = Fin (- 9999) \<longleftrightarrow>
             valid_samples rs i = [] \<or> np_mean (valid_samples rs i) = Fin (- 9999)"
    if f: "\<forall>v \<in> set (valid_samples rs i). is_finite v" for i
  proof (cases "valid_samples rs i = []")
    case True
    then show ?thesis by (simp add: b)
  next
    case False
    with np_mean_finite [OF f] obtain x where "np_mean (valid_samples rs i) = Fin x" by blast
    with False show ?thesis by (simp add: b)
  qed
  from a b c valid_samples_empty aggregate_month_rasters show ?thesis by blast
qed

lemma sorted_month_files:
  "sort_key fst (map (\<lambda>d. ((y, m, d), f d)) [a ..< b]) = map (\<lambda>d. ((y :: int, m :: int, d), f d)) [a ..< b]"
proof (rule sort_key_id_if_sorted)
  have "sorted_wrt (\<lambda>d d'. (y, m, d) \<le> (y, m, d')) [a ..< b]"
    by (rule sorted_wrt_mono_rel [OF _ sorted_wrt_upt]) simp
  then show "sorted (map fst (map (\<lambda>d. ((y, m, d), f d)) [a ..< b]))"
    by (simp add: sorted_map comp_def)
qed

lemma month_of_one_raster:
  "map snd (sort_key fst (map (\<lambda>d. ((y :: int, m :: int, d), Raster src)) [a ..< b]))
     = map Raster (replicate (b - a) src)"
  by (simp only: sorted_month_files) (simp add: comp_def map_replicate_const)

lemma valid_samples_replicate:
  "valid_samples (replicate k src) i =
     (if is_nodata src (data src ! i) \<or> is_nan (data src ! i) then []
      else replicate k (data src ! i))"
  by (simp add: valid_samples_def)

lemma np_mean_replicate_Fin: "0 < k \<Longrightarrow> np_mean (replicate k (Fin v)) = Fin v"
  using np_mean_Fin [of "replicate k v"] by (simp add: mean_def sum_list_replicate)

lemma np_sum_replicate_PInf: "foldl fl_add PInf (replicate k PInf) = PInf"
  by (induction k) simp_all

lemma np_mean_replicate_PInf: "0 < k \<Longrightarrow> np_mean (replicate k PInf) = PInf"
proof -
  assume "0 < k"
  then obtain j where "k = Suc j" by (cases k) auto
  then show ?thesis by (simp add: np_mean_def np_sum_def np_sum_replicate_PInf)
qed

theorem monthly_aggregation_witness:
  "aggregate_month True (2021, 2)
     (map (\<lambda>d. ((2021, 2, d),
                Raster \<lparr>data = [Fin 10, Fin (- 9999), NaN], nodata = Some (Fin (- 9999))\<rparr>))
        [1 ..< 29])
     = Some \<lparr>data = [Fin 10, Fin (- 9999), Fin (- 9999)], nodata = Some (Fin (- 9999))\<rparr>
   \<and> aggregate_month True (2021, 2)
     (map (\<lambda>d. ((2021, 2, d),
                Raster \<lparr>data = [Fin 10, Fin (- 9999), NaN], nodata = Some (Fin (- 9999))\<rparr>))
        [1 ..< 28])
     = None"
proof -
  let ?src = "\<lparr>data = [Fin 10, Fin (- 9999), NaN], nodata = Some (Fin (- 9999))\<rparr>"
  let ?files = "\<lambda>b. map (\<lambda>d. ((2021 :: int, 2 :: int, d), Raster ?src)) [1 ..< b]"
  have mr: "monthrange 2021 2 = 28"
    by (simp add: monthrange_def isleap_def)
  have l28: "length (?files 29) = monthrange 2021 2" by (simp add: mr)
  have l27: "length (?files 28) \<noteq> monthrange 2021 2" by (simp add: mr)
  have rs: "map snd (sort_key fst (?files 29)) = map Raster (replicate 28 ?src)"
    by (simp add: month_of_one_raster)
  have sh: "\<forall>src \<in> set (replicate 28 ?src). length (data src) = 3" by simp
  have px: "monthly_pixel (replicate 28 ?src) 0 = Fin 10"
           "monthly_pixel (replicate 28 ?src) 1 = Fin (- 9999)"
           "monthly_pixel (replicate 28 ?src) 2 = Fin (- 9999)"
    by (simp_all add: monthly_pixel_def valid_samples_replicate is_nodata_def
        np_mean_replicate_Fin)
  have up: "[0 ..< 3] = [0, 1, 2]" by (simp add: upt_rec)
  have 1: "aggregate_month True (2021, 2) (?files 29)
      = Some \<lparr>data = [Fin 10, Fin (- 9999), Fin (- 9999)], nodata = Some (Fin (- 9999))\<rparr>"
    using monthly_aggregation [of "?files 29" 2021 2 "replicate 28 ?src" 3] l28 rs sh
    by (simp only: up list.map px)
  have 2: "aggregate_month True (2021, 2) (?files 28) = None"
    using monthly_aggregation [of "?files 28" 2021 2 "replicate 28 ?src" 3] l27
    by blast
  from 1 2 show ?thesis by blast
qed

text \<open>
  The claim as stated fails: a cell that is infinite in each of the 28 daily grids
  of February 2021 is non-finite in every grid, and still the monthly cell is
  the infinity, not -9999.
\<close>

theorem monthly_aggregation_counterexample:
  "aggregate_month True (2021, 2)
     (map (\<lambda>d. ((2021, 2, d), Raster \<lparr>data = [PInf], nodata = Some (Fin (- 9999))\<rparr>))
        [1 ..< 29])
     = Some \<lparr>data = [PInf], nodata = Some (Fin (- 9999))\<rparr>"
proof -
  let ?src = "\<lparr>data = [PInf], nodata = Some (Fin (- 9999))\<rparr>"
  let ?files = "map (\<lambda>d. ((2021 :: int, 2 :: int, d), Raster ?src)) [1 ..< 29]"
  have mr: "monthrange 2021 2 = 28"
    by (simp add: monthrange_def isleap_def)
  have l28: "length ?files = monthrange 2021 2" by (simp add: mr)
  have rs: "map snd (sort_key fst ?files) = map Raster (replicate 28 ?src)"
    by (simp add: month_of_one_raster)
  have sh: "\<forall>src \<in> set (replicate 28 ?src). length (data src) = 1" by simp
  have px: "monthly_pixel (replicate 28 ?src) 0 = PInf"
    by (simp add: monthly_pixel_def valid_samples_replicate is_nodata_def
        np_mean_replicate_PInf)
  have up: "[0 ..< 1] = [0]" by simp
  show ?thesis
    by (simp only: aggregate_month_rasters [OF l28 rs sh] up list.map px)
qed

end
